theory Spec2Isabelle
  imports Main
begin

section \<open>The cache update and dump engine of \<open>cache::CacheUpdateTrait\<close>\<close>

text \<open>
  A shallow embedding of \<^verbatim>\<open>core/src/cache/cache_update_trait.cpp\<close>.

  \<^item> An instant or a duration is the integer that its \<^verbatim>\<open>count()\<close> returns: a wall-clock
    instant of the update data (\<^verbatim>\<open>dump::TimePoint\<close>) counts microseconds, an instant of
    the steady clock counts nanoseconds, a duration of the configuration
    (\<^verbatim>\<open>std::chrono::milliseconds\<close>) counts milliseconds. The default-constructed
    instant \<^verbatim>\<open>TimePoint{}\<close> is \<open>0\<close>. The counts are signed 64-bit integers, and the
    arithmetic of the source on them is written out with its wrap-around (section
    \<open>Clock arithmetic\<close>).
  \<^item> Data members keep their names without the trailing underscore, which Isabelle
    does not accept in a name: \<^verbatim>\<open>is_running_\<close> is \<open>is_running\<close>, \<^verbatim>\<open>config_\<close> is
    \<open>config\<close>, \<^verbatim>\<open>update_\<close> (the mutex-guarded \<^verbatim>\<open>UpdateData\<close>) is \<open>update_data\<close>.
  \<^item> A member function takes the object last and returns the object it leaves behind,
    paired with what it returns or throws.
  \<^item> What the environment decides (clock readings, what the user's \<^verbatim>\<open>Update\<close>,
    \<^verbatim>\<open>GetAndWrite\<close> and \<^verbatim>\<open>ReadAndSet\<close> do, what the dump file manager answers) is
    an explicit argument of the function that consults it.
  \<^item> Calls made to collaborators are appended to the log \<open>calls\<close> of the object, in the
    order in which the source makes them.
  \<^item> Every function that holds the \<^verbatim>\<open>update_\<close> mutex is one atomic step; the body of
    the asynchronous dump task is a step of its own (\<open>RunDumpTask\<close>).
\<close>

subsection \<open>Clock arithmetic\<close>

text \<open>
  \<^verbatim>\<open>std::chrono\<close> keeps every count in a signed 64-bit integer. Before it subtracts or
  compares two values of different periods it converts both to the finer period, which
  multiplies the count of the coarser one: a duration of the configuration
  (milliseconds) by \<open>1000\<close> against a \<^verbatim>\<open>dump::TimePoint\<close> (microseconds, line 333)
  and by \<open>1000000\<close> against a difference of steady-clock instants (nanoseconds, line
  256); a \<^verbatim>\<open>dump::TimePoint\<close> by \<open>1000\<close> against a \<^verbatim>\<open>system_clock::time_point\<close>
  (nanoseconds, line 242). The header of \<^verbatim>\<open>dump::TimePoint\<close> is not among the
  sources; line 301 casts the reading of the system clock to its duration, and the
  library declares it with \<^verbatim>\<open>std::chrono::microseconds\<close>. A product or a difference
  that leaves the 64-bit range is kept modulo \<open>2 ^ 64\<close>, as the machine computes it:
  \<open>wrap_int64 x\<close> is the count kept for \<open>x\<close>, and \<open>fits_int64 x\<close> says that \<open>x\<close> is
  kept as it is.
\<close>

type_synonym TimePoint = int
type_synonym Duration = int

definition wrap_int64 :: "int \<Rightarrow> int" where
  "wrap_int64 x = (x + 2 ^ 63) mod 2 ^ 64 - 2 ^ 63"

definition fits_int64 :: "int \<Rightarrow> bool" where
  "fits_int64 x = (- (2 ^ 63) \<le> x \<and> x < 2 ^ 63)"

subsection \<open>Enumerations\<close>

text \<open>
  Modelled from the spec: the headers that declare the enumerations, the configuration
  and \<^verbatim>\<open>UpdateData\<close> are not among the sources. The enumerators and the fields are
  those that the source file names; \<open>kBestEffort\<close> is the third first-update mode of
  the spec.
\<close>

datatype UpdateType = kFull | kIncremental

datatype AllowedUpdateTypes = kFullAndIncremental | kOnlyFull | kOnlyIncremental

datatype FirstUpdateMode = kRequired | kBestEffort | kSkip

datatype DumpType = kHonorDumpInterval | kForced

datatype DumpOperation = kNewDump | kBumpTime

text \<open>\<^verbatim>\<open>CacheUpdateTrait::Flag\<close>, the argument of \<^verbatim>\<open>StartPeriodicUpdates\<close>.\<close>

datatype Flag = kNoFirstUpdate

text \<open>\<^verbatim>\<open>utils::PeriodicTask::Flags\<close>.\<close>

datatype PeriodicTaskFlag = kChaotic | kCritical | kNow

subsection \<open>Exceptions\<close>

text \<open>
  The handlers of the source are \<^verbatim>\<open>catch (const EmptyCacheError&)\<close>,
  \<^verbatim>\<open>catch (const std::exception&)\<close> and \<^verbatim>\<open>catch (...)\<close>, so an exception is one of
  three kinds: \<^verbatim>\<open>EmptyCacheError\<close> (a \<^verbatim>\<open>std::runtime_error\<close>), another object
  derived from \<^verbatim>\<open>std::exception\<close>, or an object of any other type. The number tells
  two exceptions of a kind apart.
\<close>

datatype Exception = EmptyCacheError | StdException nat | OtherException nat

fun IsStdException :: "Exception \<Rightarrow> bool" where
  "IsStdException EmptyCacheError = True"
| "IsStdException (StdException n) = True"
| "IsStdException (OtherException n) = False"

subsection \<open>Configuration and state\<close>

record CacheConfigStatic =
  update_interval :: Duration
  update_jitter :: Duration
  full_update_interval :: Duration
  cleanup_interval :: Duration
  allowed_update_types :: AllowedUpdateTypes
  first_update_mode :: FirstUpdateMode
  force_full_second_update :: bool
  allow_first_update_failure :: bool
  dumps_enabled :: bool
  min_dump_interval :: Duration

text \<open>
  Modelled from the spec: the task engine (\<^verbatim>\<open>engine::TaskWithResult<void>\<close>, the
  type of \<^verbatim>\<open>dump_task\<close>) is not among the sources. A handle holds no task
  (\<open>Invalid\<close>), or a task that has not finished, with the values its closure captured
  (\<open>operation_type\<close>, \<open>old_update_time\<close>, \<open>new_update_time\<close>), or a finished task
  with the exception it ended with, if any. \<^verbatim>\<open>IsValid\<close> and \<^verbatim>\<open>IsFinished\<close> read the
  state; \<^verbatim>\<open>Get\<close> returns, or rethrows that exception, and consumes the handle;
  \<^verbatim>\<open>Wait\<close> blocks until the task has finished.
\<close>

datatype DumpTask =
    Invalid
  | Running DumpOperation TimePoint TimePoint
  | Finished "Exception option"

fun IsValid :: "DumpTask \<Rightarrow> bool" where
  "IsValid Invalid = False"
| "IsValid (Running operation_type old_update_time new_update_time) = True"
| "IsValid (Finished r) = True"

fun IsFinished :: "DumpTask \<Rightarrow> bool" where
  "IsFinished Invalid = False"
| "IsFinished (Running operation_type old_update_time new_update_time) = False"
| "IsFinished (Finished r) = True"

record UpdateData =
  last_update :: TimePoint
  last_modifying_update :: TimePoint
  last_full_update :: int
  dump_task :: DumpTask

text \<open>Calls to collaborators, logged in order.\<close>

datatype Call =
    DomainUpdate UpdateType TimePoint TimePoint
      \<comment> \<open>the user's \<^verbatim>\<open>Update(type, last_update, now, stats)\<close>\<close>
  | DumpEngine DumpType
      \<comment> \<open>\<^verbatim>\<open>DumpAsyncIfNeeded(type, update, config)\<close>\<close>
  | SpawnDump DumpOperation TimePoint TimePoint
      \<comment> \<open>\<^verbatim>\<open>utils::Async(fs_task_processor_, "cache-dump", ...)\<close> in \<^verbatim>\<open>DumpAsync\<close>\<close>
  | RegisterNewDump TimePoint
      \<comment> \<open>\<^verbatim>\<open>dumper_->RegisterNewDump(update_time)\<close>\<close>
  | BumpDumpTime TimePoint TimePoint
      \<comment> \<open>\<^verbatim>\<open>dumper_->BumpDumpTime(old_update_time, new_update_time)\<close>\<close>
  | WaitDumpTask bool
      \<comment> \<open>\<^verbatim>\<open>dump_task.Wait()\<close>; \<open>True\<close> when the task had not finished at the call\<close>

text \<open>\<^verbatim>\<open>utils::PeriodicTask::Settings\<close> of a started update task.\<close>

record PeriodicTaskSettings =
  period :: Duration
  jitter :: Duration
  task_flags :: "PeriodicTaskFlag set"

text \<open>
  The object. \<open>update_task\<close> and \<open>cleanup_task\<close> are \<open>None\<close> while the periodic
  task is not started, and hold its settings while it is.
\<close>

record CacheUpdateTrait =
  static_config :: CacheConfigStatic
  config :: CacheConfigStatic
  periodic_update_enabled :: bool
  is_running :: bool
  force_next_update_full :: bool
  periodic_task_flags :: "PeriodicTaskFlag set"
  cache_modified :: bool
  last_dumped_update :: TimePoint
  update_data :: UpdateData
  update_task :: "PeriodicTaskSettings option"
  cleanup_task :: "Duration option"
  cache_invalidator_holder :: bool
  dump_is_loaded :: bool
  dump_is_current_from_dump :: bool
  calls :: "Call list"

text \<open>
  The constructor (lines 58-79). The update data is default-constructed: its instants
  are the zero instant ("zero-value means never") and its task handle is invalid.
\<close>

definition Construct :: "CacheConfigStatic \<Rightarrow> bool \<Rightarrow> CacheUpdateTrait" where
  "Construct cfg periodic_enabled =
     \<lparr> static_config = cfg,
       config = cfg,
       periodic_update_enabled = periodic_enabled,
       is_running = False,
       force_next_update_full = False,
       periodic_task_flags = {kChaotic, kCritical},
       cache_modified = False,
       last_dumped_update = 0,
       update_data = \<lparr> last_update = 0, last_modifying_update = 0,
                       last_full_update = 0, dump_task = Invalid \<rparr>,
       update_task = None,
       cleanup_task = None,
       cache_invalidator_holder = False,
       dump_is_loaded = False,
       dump_is_current_from_dump = False,
       calls = [] \<rparr>"

definition GetConfig :: "CacheUpdateTrait \<Rightarrow> CacheConfigStatic" where
  "GetConfig c = config c"

definition GetLastDumpedUpdate :: "CacheUpdateTrait \<Rightarrow> TimePoint" where
  "GetLastDumpedUpdate c = last_dumped_update c"

definition GetPeriodicTaskSettings ::
  "CacheConfigStatic \<Rightarrow> CacheUpdateTrait \<Rightarrow> PeriodicTaskSettings" where
  "GetPeriodicTaskSettings cfg c =
     \<lparr> period = update_interval cfg, jitter = update_jitter cfg,
       task_flags = periodic_task_flags c \<rparr>"

definition OnCacheModified :: "CacheUpdateTrait \<Rightarrow> CacheUpdateTrait" where
  "OnCacheModified c = c\<lparr>cache_modified := True\<rparr>"

definition Log :: "Call \<Rightarrow> CacheUpdateTrait \<Rightarrow> CacheUpdateTrait" where
  "Log x c = c\<lparr>calls := calls c @ [x]\<rparr>"

subsection \<open>The update driver\<close>

text \<open>
  What one run of the user's \<^verbatim>\<open>Update\<close> meets: the two clock readings of
  \<^verbatim>\<open>DoUpdate\<close>, whether the user code calls \<^verbatim>\<open>OnCacheModified()\<close>, and the exception
  it throws, if any.
\<close>

record UpdateEnv =
  steady_now :: int
  system_now :: TimePoint
  calls_OnCacheModified :: bool
  update_throws :: "Exception option"

text \<open>\<^verbatim>\<open>DoUpdate\<close> (lines 290-315).\<close>

definition DoUpdate ::
  "UpdateType \<Rightarrow> UpdateEnv \<Rightarrow> CacheUpdateTrait \<Rightarrow> CacheUpdateTrait \<times> Exception option" where
  "DoUpdate update_type env c =
     (let c1 = Log (DomainUpdate update_type (last_update (update_data c)) (system_now env)) c;
          c2 = (if calls_OnCacheModified env then OnCacheModified c1 else c1)
      in case update_throws env of
           Some e \<Rightarrow> (c2, Some e)
         | None \<Rightarrow>
            (let u1 = (update_data c2)\<lparr>last_update := system_now env\<rparr>;
                 u2 = (if cache_modified c2
                       then u1\<lparr>last_modifying_update := system_now env\<rparr> else u1);
                 u3 = (if update_type = kFull
                       then u2\<lparr>last_full_update := steady_now env\<rparr> else u2)
             in (c2\<lparr>cache_modified := False, update_data := u3,
                     dump_is_current_from_dump := False\<rparr>, None)))"

text \<open>The public \<^verbatim>\<open>Update(UpdateType)\<close> (lines 31-41).\<close>

definition Update ::
  "UpdateType \<Rightarrow> UpdateEnv \<Rightarrow> CacheUpdateTrait \<Rightarrow> CacheUpdateTrait \<times> Exception option" where
  "Update update_type env c =
     (let cfg = GetConfig c;
          update_type' =
            (if allowed_update_types cfg = kOnlyFull \<and> update_type = kIncremental
             then kFull else update_type)
      in DoUpdate update_type' env c)"

subsection \<open>The dump engine\<close>

text \<open>
  \<^verbatim>\<open>ShouldDump\<close> (lines 317-348). Line 333 converts \<^verbatim>\<open>min_dump_interval\<close> to
  microseconds and subtracts it from \<^verbatim>\<open>last_update\<close>.
\<close>

definition ShouldDump ::
  "DumpType \<Rightarrow> UpdateData \<Rightarrow> CacheConfigStatic \<Rightarrow> CacheUpdateTrait \<Rightarrow> bool" where
  "ShouldDump ty upd cfg c =
     (if \<not> dumps_enabled cfg then False
      else if last_update upd = 0 then False
      else if ty = kHonorDumpInterval \<and>
              GetLastDumpedUpdate c
                > wrap_int64 (last_update upd - wrap_int64 (min_dump_interval cfg * 1000))
           then False
      else if IsValid (dump_task upd) \<and> \<not> IsFinished (dump_task upd) then False
      else True)"

text \<open>
  \<^verbatim>\<open>dump_task.Get()\<close> in \<^verbatim>\<open>DumpAsync\<close>: the exception a finished task rethrows. The
  \<^verbatim>\<open>UASSERT\<close> at the head of \<^verbatim>\<open>DumpAsync\<close> excludes a task that has not finished
  (lemma \<open>ShouldDump_not_running\<close>: it holds at both call sites).
\<close>

fun Get :: "DumpTask \<Rightarrow> Exception option" where
  "Get (Finished r) = r"
| "Get Invalid = None"
| "Get (Running operation_type old_update_time new_update_time) = None"

text \<open>
  \<^verbatim>\<open>DumpAsync\<close> (lines 385-420). A \<^verbatim>\<open>std::exception\<close> of the previous task is
  logged; anything else leaves \<^verbatim>\<open>DumpAsync\<close> before the new task is spawned, the
  handle consumed by \<^verbatim>\<open>Get()\<close>.
\<close>

definition DumpAsync ::
  "DumpOperation \<Rightarrow> CacheUpdateTrait \<Rightarrow> CacheUpdateTrait \<times> Exception option" where
  "DumpAsync operation_type c =
     (let previous = (if IsValid (dump_task (update_data c))
                      then Get (dump_task (update_data c)) else None);
          old_update_time = GetLastDumpedUpdate c;
          new_update_time = last_modifying_update (update_data c)
      in case previous of
           Some e \<Rightarrow>
             if IsStdException e
             then (Log (SpawnDump operation_type old_update_time new_update_time)
                     (c\<lparr>update_data := (update_data c)
                         \<lparr>dump_task := Running operation_type old_update_time new_update_time\<rparr>\<rparr>),
                   None)
             else (c\<lparr>update_data := (update_data c)\<lparr>dump_task := Invalid\<rparr>\<rparr>, Some e)
         | None \<Rightarrow>
             (Log (SpawnDump operation_type old_update_time new_update_time)
                (c\<lparr>update_data := (update_data c)
                    \<lparr>dump_task := Running operation_type old_update_time new_update_time\<rparr>\<rparr>),
              None))"

text \<open>\<^verbatim>\<open>DumpAsyncIfNeeded\<close> (lines 422-435).\<close>

definition DumpAsyncIfNeeded ::
  "DumpType \<Rightarrow> CacheConfigStatic \<Rightarrow> CacheUpdateTrait \<Rightarrow> CacheUpdateTrait \<times> Exception option" where
  "DumpAsyncIfNeeded ty cfg c0 =
     (let c = Log (DumpEngine ty) c0 in
      if \<not> ShouldDump ty (update_data c) cfg c then (c, None)
      else if GetLastDumpedUpdate c = last_modifying_update (update_data c)
      then DumpAsync kBumpTime c
      else DumpAsync kNewDump c)"

text \<open>
  What the body of a dump task meets on the filesystem task processor: the exception
  thrown inside the \<^verbatim>\<open>try\<close> block of \<^verbatim>\<open>DoDump\<close> (registering the dump, creating the
  writer, the user's \<^verbatim>\<open>GetAndWrite\<close>, finishing, reading the file size), the
  exception thrown by \<^verbatim>\<open>dumper_->Cleanup()\<close>, and what \<^verbatim>\<open>dumper_->BumpDumpTime\<close>
  returns or throws.
\<close>

record DumpEnv =
  write_throws :: "Exception option"
  cleanup_throws :: "Exception option"
  bump_result :: "Exception + bool"

text \<open>\<^verbatim>\<open>DoDump\<close> (lines 350-383); \<open>Inl\<close> is an exception that leaves it.\<close>

definition DoDump ::
  "TimePoint \<Rightarrow> DumpEnv \<Rightarrow> CacheUpdateTrait \<Rightarrow> CacheUpdateTrait \<times> (Exception + bool)" where
  "DoDump update_time env c =
     (let c1 = Log (RegisterNewDump update_time) c in
      case write_throws env of
        Some EmptyCacheError \<Rightarrow> (c1, Inr False)
      | Some (StdException n) \<Rightarrow> (c1, Inr False)
      | Some (OtherException n) \<Rightarrow> (c1, Inl (OtherException n))
      | None \<Rightarrow>
          (case cleanup_throws env of
             Some e \<Rightarrow> (c1, Inl e)
           | None \<Rightarrow> (c1, Inr True)))"

text \<open>
  The closure spawned by \<^verbatim>\<open>DumpAsync\<close> (lines 401-419). \<open>DumpBody\<close> is its
  \<^verbatim>\<open>switch\<close>, which computes \<^verbatim>\<open>success\<close>; \<open>RunDumpTask\<close> runs the closure to its
  end: the step in which a dump task that has not finished becomes a finished one.
\<close>

definition DumpBody ::
  "DumpOperation \<Rightarrow> TimePoint \<Rightarrow> TimePoint \<Rightarrow> DumpEnv \<Rightarrow> CacheUpdateTrait
     \<Rightarrow> CacheUpdateTrait \<times> (Exception + bool)" where
  "DumpBody operation_type old_update_time new_update_time env c =
     (case operation_type of
        kNewDump \<Rightarrow> DoDump new_update_time env c
      | kBumpTime \<Rightarrow>
          (Log (BumpDumpTime old_update_time new_update_time) c, bump_result env))"

definition RunDumpTask :: "DumpEnv \<Rightarrow> CacheUpdateTrait \<Rightarrow> CacheUpdateTrait" where
  "RunDumpTask env c =
     (case dump_task (update_data c) of
        Running operation_type old_update_time new_update_time \<Rightarrow>
          (case DumpBody operation_type old_update_time new_update_time env c of
             (c1, Inr success) \<Rightarrow>
               (if success then c1\<lparr>last_dumped_update := new_update_time\<rparr> else c1)
                 \<lparr>update_data := (update_data c1)\<lparr>dump_task := Finished None\<rparr>\<rparr>
           | (c1, Inl e) \<Rightarrow>
               c1\<lparr>update_data := (update_data c1)\<lparr>dump_task := Finished (Some e)\<rparr>\<rparr>)
      | Invalid \<Rightarrow> c
      | Finished r \<Rightarrow> c)"

text \<open>
  \<^verbatim>\<open>dump_task.Wait()\<close>: returns at once on a finished task, and otherwise blocks until
  the task has run to its end.
\<close>

definition Wait :: "DumpEnv \<Rightarrow> CacheUpdateTrait \<Rightarrow> CacheUpdateTrait" where
  "Wait env c =
     RunDumpTask env (Log (WaitDumpTask (\<not> IsFinished (dump_task (update_data c)))) c)"

text \<open>\<^verbatim>\<open>DumpSyncDebug\<close> (lines 43-49).\<close>

definition DumpSyncDebug ::
  "DumpEnv \<Rightarrow> CacheUpdateTrait \<Rightarrow> CacheUpdateTrait \<times> Exception option" where
  "DumpSyncDebug env c =
     (let cfg = GetConfig c in
      case DumpAsyncIfNeeded kForced cfg c of
        (c1, Some e) \<Rightarrow> (c1, Some e)
      | (c1, None) \<Rightarrow>
          (if IsValid (dump_task (update_data c1)) then Wait env c1 else c1, None))"

subsection \<open>The periodic tick\<close>

text \<open>
  \<^verbatim>\<open>DoPeriodicUpdate\<close> (lines 233-272). \<open>steady_now_decision\<close> is the reading of
  the steady clock in the \<^verbatim>\<open>kFullAndIncremental\<close> branch. Line 242 compares
  \<^verbatim>\<open>last_update\<close>, converted to nanoseconds, with the zero instant of the system
  clock; line 256 compares the difference of two steady-clock instants with
  \<^verbatim>\<open>full_update_interval\<close>, converted to nanoseconds. The handler catches what
  derives from \<^verbatim>\<open>std::exception\<close>, calls the dump engine and rethrows; an exception
  thrown by the dump engine inside the handler replaces the one being handled.
\<close>

definition DoPeriodicUpdate ::
  "int \<Rightarrow> UpdateEnv \<Rightarrow> CacheUpdateTrait \<Rightarrow> CacheUpdateTrait \<times> Exception option" where
  "DoPeriodicUpdate steady_now_decision env c0 =
     (let cfg = GetConfig c0;
          force_full_update =
            (force_next_update_full c0 \<or>
             wrap_int64 (last_update (update_data c0) * 1000) = 0);
          c = c0\<lparr>force_next_update_full := False\<rparr>;
          update_type =
            (if \<not> force_full_update then
               (case allowed_update_types cfg of
                  kOnlyFull \<Rightarrow> kFull
                | kOnlyIncremental \<Rightarrow> kIncremental
                | kFullAndIncremental \<Rightarrow>
                    if wrap_int64 (steady_now_decision - last_full_update (update_data c))
                         < wrap_int64 (full_update_interval cfg * 1000000)
                    then kIncremental else kFull)
             else kFull);
          tried =
            (case DoUpdate update_type env c of
               (c1, Some e) \<Rightarrow> (c1, Some e)
             | (c1, None) \<Rightarrow> DumpAsyncIfNeeded kHonorDumpInterval cfg c1)
      in case tried of
           (c2, None) \<Rightarrow> (c2, None)
         | (c2, Some ex) \<Rightarrow>
             if IsStdException ex
             then (case DumpAsyncIfNeeded kHonorDumpInterval cfg c2 of
                     (c3, None) \<Rightarrow> (c3, Some ex)
                   | (c3, Some e') \<Rightarrow> (c3, Some e'))
             else (c2, Some ex))"

subsection \<open>Bootstrap and shutdown\<close>

text \<open>
  What \<^verbatim>\<open>LoadFromDump\<close> meets: what \<^verbatim>\<open>dumper_->GetLatestDump()\<close> returns (the
  \<^verbatim>\<open>update_time\<close> of the latest dump, if there is one) or throws, and the exception
  thrown while reading it (creating the reader, the user's \<^verbatim>\<open>ReadAndSet\<close>, finishing).
\<close>

record LoadEnv =
  latest_dump :: "Exception + TimePoint option"
  read_throws :: "Exception option"

text \<open>The task run by \<^verbatim>\<open>LoadFromDump\<close> (lines 451-466) and its \<^verbatim>\<open>Get()\<close>.\<close>

definition ReadLatestDump :: "LoadEnv \<Rightarrow> Exception + TimePoint option" where
  "ReadLatestDump env =
     (case latest_dump env of
        Inl e \<Rightarrow> if IsStdException e then Inr None else Inl e
      | Inr None \<Rightarrow> Inr None
      | Inr (Some update_time) \<Rightarrow>
          (case read_throws env of
             Some e \<Rightarrow> if IsStdException e then Inr None else Inl e
           | None \<Rightarrow> Inr (Some update_time)))"

text \<open>\<^verbatim>\<open>LoadFromDump\<close> (lines 437-481); \<open>Inl\<close> is an exception that leaves it.\<close>

definition LoadFromDump ::
  "CacheConfigStatic \<Rightarrow> LoadEnv \<Rightarrow> CacheUpdateTrait \<Rightarrow> CacheUpdateTrait \<times> (Exception + bool)" where
  "LoadFromDump cfg env c =
     (if \<not> dumps_enabled cfg then (c, Inr False)
      else case ReadLatestDump env of
             Inl e \<Rightarrow> (c, Inl e)
           | Inr None \<Rightarrow> (c, Inr False)
           | Inr (Some update_time) \<Rightarrow>
               (c\<lparr>update_data := (update_data c)
                    \<lparr>last_update := update_time, last_modifying_update := update_time\<rparr>,
                  last_dumped_update := max (last_dumped_update c) update_time,
                  dump_is_loaded := True,
                  dump_is_current_from_dump := True\<rparr>,
                Inr True))"

text \<open>The first update of \<^verbatim>\<open>StartPeriodicUpdates\<close> with its handler (lines 123-139).\<close>

definition FirstUpdate ::
  "bool \<Rightarrow> CacheConfigStatic \<Rightarrow> int \<Rightarrow> UpdateEnv \<Rightarrow> CacheUpdateTrait
     \<Rightarrow> CacheUpdateTrait \<times> Exception option" where
  "FirstUpdate dump_loaded cfg steady_now_decision env c =
     (case DoPeriodicUpdate steady_now_decision env c of
        (c1, None) \<Rightarrow> (c1, None)
      | (c1, Some e) \<Rightarrow>
          if IsStdException e then
            (if dump_loaded \<and> first_update_mode cfg \<noteq> kRequired then (c1, None)
             else if allow_first_update_failure (static_config c1) then (c1, None)
             else (c1, Some e))
          else (c1, Some e))"

text \<open>The rest of the outer \<^verbatim>\<open>try\<close> block (lines 147-166).\<close>

definition StartTasks :: "bool \<Rightarrow> CacheConfigStatic \<Rightarrow> CacheUpdateTrait \<Rightarrow> CacheUpdateTrait" where
  "StartTasks dump_loaded cfg c =
     (let c1 = (if dump_loaded \<and> allowed_update_types cfg = kOnlyIncremental \<and>
                   force_full_second_update cfg
                then c\<lparr>force_next_update_full := True,
                       periodic_task_flags := insert kNow (periodic_task_flags c)\<rparr>
                else c)
      in if periodic_update_enabled c1
         then c1\<lparr>update_task := Some (GetPeriodicTaskSettings cfg c1),
                 cleanup_task := Some (cleanup_interval cfg)\<rparr>
         else c1)"

text \<open>The outer \<^verbatim>\<open>try\<close> block of \<^verbatim>\<open>StartPeriodicUpdates\<close> (lines 114-166).\<close>

definition StartBody ::
  "Flag set \<Rightarrow> CacheConfigStatic \<Rightarrow> LoadEnv \<Rightarrow> int \<Rightarrow> UpdateEnv \<Rightarrow> CacheUpdateTrait
     \<Rightarrow> CacheUpdateTrait \<times> Exception option" where
  "StartBody flags cfg load_env steady_now_decision env c =
     (case LoadFromDump cfg load_env c of
        (c1, Inl e) \<Rightarrow> (c1, Some e)
      | (c1, Inr dump_loaded) \<Rightarrow>
          (let first =
                 (if (\<not> dump_loaded \<or> first_update_mode cfg \<noteq> kSkip) \<and>
                     (\<not> (kNoFirstUpdate \<in> flags) \<or> \<not> periodic_update_enabled c1)
                  then FirstUpdate dump_loaded cfg steady_now_decision env c1
                  else (c1, None))
           in case first of
                (c2, Some e) \<Rightarrow> (c2, Some e)
              | (c2, None) \<Rightarrow> (StartTasks dump_loaded cfg c2, None)))"

text \<open>
  \<^verbatim>\<open>StartPeriodicUpdates\<close> (lines 98-171). \<open>EnterStart\<close> is what a call that finds
  the cache not running does before the \<^verbatim>\<open>try\<close> block: the exchange of
  \<^verbatim>\<open>is_running_\<close> and the registration of the cache invalidator.
\<close>

definition EnterStart :: "CacheUpdateTrait \<Rightarrow> CacheUpdateTrait" where
  "EnterStart c = c\<lparr>is_running := True, cache_invalidator_holder := True\<rparr>"

definition StartPeriodicUpdates ::
  "Flag set \<Rightarrow> LoadEnv \<Rightarrow> int \<Rightarrow> UpdateEnv \<Rightarrow> CacheUpdateTrait
     \<Rightarrow> CacheUpdateTrait \<times> Exception option" where
  "StartPeriodicUpdates flags load_env steady_now_decision env c =
     (if is_running c then (c, None)
      else
        (let cfg = GetConfig c in
         case StartBody flags cfg load_env steady_now_decision env (EnterStart c) of
           (c1, Some e) \<Rightarrow> (c1\<lparr>is_running := False\<rparr>, Some e)
         | (c1, None) \<Rightarrow> (c1, None)))"

text \<open>
  \<^verbatim>\<open>StopPeriodicUpdates\<close> (lines 173-203). A dump task that has not finished is asked
  to cancel and waited for: it either runs to its end (\<open>Some\<close> of what it meets) or
  is cancelled before it ran (\<open>None\<close>), and then \<^verbatim>\<open>Get()\<close> would throw a
  \<^verbatim>\<open>std::exception\<close>.
\<close>

definition StopPeriodicUpdates :: "DumpEnv option \<Rightarrow> CacheUpdateTrait \<Rightarrow> CacheUpdateTrait" where
  "StopPeriodicUpdates cancel_env c0 =
     (if \<not> is_running c0 then c0
      else
        (let c = c0\<lparr>is_running := False, update_task := None, cleanup_task := None\<rparr> in
         if IsValid (dump_task (update_data c)) \<and> \<not> IsFinished (dump_task (update_data c))
         then (case cancel_env of
                 Some env \<Rightarrow> Wait env c
               | None \<Rightarrow>
                   (Log (WaitDumpTask True) c)
                     \<lparr>update_data := (update_data c)\<lparr>dump_task := Finished (Some (StdException 0))\<rparr>\<rparr>)
         else c))"

text \<open>
  \<^verbatim>\<open>SetConfig\<close> (lines 225-231); \<open>new_config\<close> is the merged configuration that
  \<^verbatim>\<open>config_.Assign\<close> installs.
\<close>

definition SetConfig :: "CacheConfigStatic \<Rightarrow> CacheUpdateTrait \<Rightarrow> CacheUpdateTrait" where
  "SetConfig new_config c0 =
     (let c = c0\<lparr>config := new_config\<rparr> in
      c\<lparr>update_task := map_option (\<lambda>s. GetPeriodicTaskSettings new_config c) (update_task c),
        cleanup_task := map_option (\<lambda>d. cleanup_interval new_config) (cleanup_task c)\<rparr>)"

subsection \<open>Executions\<close>

text \<open>
  The operations that act on one cache object, each with what it meets: the two entry
  points of the lifecycle, a tick of the started update task, the public
  \<^verbatim>\<open>Update\<close> and \<^verbatim>\<open>DumpSyncDebug\<close> of the test-suite interface, the end of the
  dump task in flight, a call of \<^verbatim>\<open>OnCacheModified\<close> by user code, and
  \<^verbatim>\<open>SetConfig\<close>. An exception that leaves an operation goes to its caller; the object
  stays as the operation left it.
\<close>

datatype Event =
    StartEvent "Flag set" LoadEnv int UpdateEnv
  | StopEvent "DumpEnv option"
  | TickEvent int UpdateEnv
  | UpdateEvent UpdateType UpdateEnv
  | DumpSyncDebugEvent DumpEnv
  | DumpTaskEvent DumpEnv
  | OnCacheModifiedEvent
  | SetConfigEvent CacheConfigStatic

fun Step :: "Event \<Rightarrow> CacheUpdateTrait \<Rightarrow> CacheUpdateTrait" where
  "Step (StartEvent flags load_env steady_now_decision env) c =
     fst (StartPeriodicUpdates flags load_env steady_now_decision env c)"
| "Step (StopEvent cancel_env) c = StopPeriodicUpdates cancel_env c"
| "Step (TickEvent steady_now_decision env) c =
     (if update_task c = None then c else fst (DoPeriodicUpdate steady_now_decision env c))"
| "Step (UpdateEvent update_type env) c = fst (Update update_type env c)"
| "Step (DumpSyncDebugEvent env) c = fst (DumpSyncDebug env c)"
| "Step (DumpTaskEvent env) c = RunDumpTask env c"
| "Step OnCacheModifiedEvent c = OnCacheModified c"
| "Step (SetConfigEvent new_config) c = SetConfig new_config c"

fun Run :: "Event list \<Rightarrow> CacheUpdateTrait \<Rightarrow> CacheUpdateTrait" where
  "Run [] c = c"
| "Run (ev # evs) c = Run evs (Step ev c)"

subsection \<open>Reading the call log\<close>

fun update_type_of :: "Call \<Rightarrow> UpdateType list" where
  "update_type_of (DomainUpdate update_type previous now) = [update_type]"
| "update_type_of (DumpEngine ty) = []"
| "update_type_of (SpawnDump operation_type old_update_time new_update_time) = []"
| "update_type_of (RegisterNewDump update_time) = []"
| "update_type_of (BumpDumpTime old_update_time new_update_time) = []"
| "update_type_of (WaitDumpTask blocked) = []"

text \<open>The types of the user updates executed so far, oldest first.\<close>

definition executed_types :: "Call list \<Rightarrow> UpdateType list" where
  "executed_types xs = concat (map update_type_of xs)"

fun driver_step_of :: "Call \<Rightarrow> Call list" where
  "driver_step_of (DomainUpdate update_type previous now) =
     [DomainUpdate update_type previous now]"
| "driver_step_of (DumpEngine ty) = [DumpEngine ty]"
| "driver_step_of (SpawnDump operation_type old_update_time new_update_time) = []"
| "driver_step_of (RegisterNewDump update_time) = []"
| "driver_step_of (BumpDumpTime old_update_time new_update_time) = []"
| "driver_step_of (WaitDumpTask blocked) = []"

text \<open>The calls of the user update and of the dump engine made so far, in order.\<close>

definition driver_steps :: "Call list \<Rightarrow> Call list" where
  "driver_steps xs = concat (map driver_step_of xs)"

fun spawn_of :: "Call \<Rightarrow> Call list" where
  "spawn_of (DomainUpdate update_type previous now) = []"
| "spawn_of (DumpEngine ty) = []"
| "spawn_of (SpawnDump operation_type old_update_time new_update_time) =
     [SpawnDump operation_type old_update_time new_update_time]"
| "spawn_of (RegisterNewDump update_time) = []"
| "spawn_of (BumpDumpTime old_update_time new_update_time) = []"
| "spawn_of (WaitDumpTask blocked) = []"

text \<open>The dump operations scheduled so far, in order.\<close>

definition spawned :: "Call list \<Rightarrow> Call list" where
  "spawned xs = concat (map spawn_of xs)"

subsection \<open>Conditions on executions\<close>

text \<open>
  \<open>ClockNotBehind ev c\<close>: the system clock reading that the update of \<open>ev\<close> takes is
  not earlier than \<open>last_modifying_update\<close> (for a bootstrap, as the dump load leaves
  it). It holds of every event when the system clock never steps back and no dump on
  disk is stamped with a future instant.
\<close>

fun ClockNotBehind :: "Event \<Rightarrow> CacheUpdateTrait \<Rightarrow> bool" where
  "ClockNotBehind (StartEvent flags load_env steady_now_decision env) c =
     (is_running c \<or>
      last_modifying_update (update_data (fst (LoadFromDump (GetConfig c) load_env c)))
        \<le> system_now env)"
| "ClockNotBehind (TickEvent steady_now_decision env) c =
     (last_modifying_update (update_data c) \<le> system_now env)"
| "ClockNotBehind (UpdateEvent update_type env) c =
     (last_modifying_update (update_data c) \<le> system_now env)"
| "ClockNotBehind (StopEvent cancel_env) c = True"
| "ClockNotBehind (DumpSyncDebugEvent env) c = True"
| "ClockNotBehind (DumpTaskEvent env) c = True"
| "ClockNotBehind OnCacheModifiedEvent c = True"
| "ClockNotBehind (SetConfigEvent new_config) c = True"

text \<open>\<open>KeepsPolicy p ev\<close>: \<open>ev\<close> does not install a configuration with another update policy.\<close>

fun KeepsPolicy :: "AllowedUpdateTypes \<Rightarrow> Event \<Rightarrow> bool" where
  "KeepsPolicy p (SetConfigEvent new_config) = (allowed_update_types new_config = p)"
| "KeepsPolicy p (StartEvent flags load_env steady_now_decision env) = True"
| "KeepsPolicy p (StopEvent cancel_env) = True"
| "KeepsPolicy p (TickEvent steady_now_decision env) = True"
| "KeepsPolicy p (UpdateEvent update_type env) = True"
| "KeepsPolicy p (DumpSyncDebugEvent env) = True"
| "KeepsPolicy p (DumpTaskEvent env) = True"
| "KeepsPolicy p OnCacheModifiedEvent = True"

text \<open>
  The update type that a tick chooses in state \<open>c\<close> when the steady clock reads
  \<open>steady_now_decision\<close> (lines 240-261 of \<^verbatim>\<open>DoPeriodicUpdate\<close>, see lemma
  \<open>DoPeriodicUpdate_unfold\<close>).
\<close>

definition TickUpdateType :: "int \<Rightarrow> CacheUpdateTrait \<Rightarrow> UpdateType" where
  "TickUpdateType steady_now_decision c =
     (if force_next_update_full c \<or> wrap_int64 (last_update (update_data c) * 1000) = 0
      then kFull
      else (case allowed_update_types (config c) of
              kOnlyFull \<Rightarrow> kFull
            | kOnlyIncremental \<Rightarrow> kIncremental
            | kFullAndIncremental \<Rightarrow>
                if wrap_int64 (steady_now_decision - last_full_update (update_data c))
                     < wrap_int64 (full_update_interval (config c) * 1000000)
                then kIncremental else kFull))"

subsection \<open>Concrete configurations and environments\<close>

definition example_config :: CacheConfigStatic where
  "example_config =
     \<lparr> update_interval = 60, update_jitter = 5, full_update_interval = 600,
       cleanup_interval = 30, allowed_update_types = kFullAndIncremental,
       first_update_mode = kBestEffort, force_full_second_update = False,
       allow_first_update_failure = False, dumps_enabled = True,
       min_dump_interval = 0 \<rparr>"

text \<open>A user update at instant \<open>now\<close> that succeeds, and one that throws \<open>e\<close>.\<close>

definition update_at :: "TimePoint \<Rightarrow> bool \<Rightarrow> UpdateEnv" where
  "update_at now modifies =
     \<lparr> steady_now = now, system_now = now, calls_OnCacheModified = modifies,
       update_throws = None \<rparr>"

definition failing_update_at :: "TimePoint \<Rightarrow> Exception \<Rightarrow> UpdateEnv" where
  "failing_update_at now e =
     \<lparr> steady_now = now, system_now = now, calls_OnCacheModified = False,
       update_throws = Some e \<rparr>"

definition dump_succeeds :: DumpEnv where
  "dump_succeeds = \<lparr> write_throws = None, cleanup_throws = None, bump_result = Inr True \<rparr>"

definition no_dump_on_disk :: LoadEnv where
  "no_dump_on_disk = \<lparr> latest_dump = Inr None, read_throws = None \<rparr>"

definition dump_on_disk :: "TimePoint \<Rightarrow> LoadEnv" where
  "dump_on_disk update_time = \<lparr> latest_dump = Inr (Some update_time), read_throws = None \<rparr>"


text \<open>
  The cache built from \<open>example_config\<close> after its bootstrap with no dump on disk and
  a first update at instant 100 that modifies the cache (lemma \<open>first_start\<close>).
\<close>

definition started_cache :: CacheUpdateTrait where
  "started_cache =
     (Construct example_config True)
       \<lparr> is_running := True,
         update_data := \<lparr> last_update = 100, last_modifying_update = 100,
                          last_full_update = 100, dump_task = Running kNewDump 0 100 \<rparr>,
         update_task := Some \<lparr> period = 60, jitter = 5, task_flags = {kChaotic, kCritical} \<rparr>,
         cleanup_task := Some 30,
         cache_invalidator_holder := True,
         calls := [DomainUpdate kFull 0 100, DumpEngine kHonorDumpInterval,
                   SpawnDump kNewDump 0 100] \<rparr>"

text \<open>
  The states that follow it: after the dump task of the bootstrap has succeeded; after
  a further tick whose update modifies the cache at the earlier clock reading 90; after
  a further tick at 200 that modifies nothing; and, from \<open>dumped_cache\<close> again, after a
  tick at 200 that modifies nothing.
\<close>

definition dumped_cache :: CacheUpdateTrait where
  "dumped_cache =
     started_cache
       \<lparr> last_dumped_update := 100,
         update_data := \<lparr> last_update = 100, last_modifying_update = 100,
                          last_full_update = 100, dump_task = Finished None \<rparr>,
         calls := [DomainUpdate kFull 0 100, DumpEngine kHonorDumpInterval,
                   SpawnDump kNewDump 0 100, RegisterNewDump 100] \<rparr>"

definition clock_back_cache :: CacheUpdateTrait where
  "clock_back_cache =
     dumped_cache
       \<lparr> update_data := \<lparr> last_update = 90, last_modifying_update = 90,
                          last_full_update = 100, dump_task = Finished None \<rparr>,
         calls := [DomainUpdate kFull 0 100, DumpEngine kHonorDumpInterval,
                   SpawnDump kNewDump 0 100, RegisterNewDump 100,
                   DomainUpdate kIncremental 100 90, DumpEngine kHonorDumpInterval] \<rparr>"

definition stale_dump_cache :: CacheUpdateTrait where
  "stale_dump_cache =
     clock_back_cache
       \<lparr> update_data := \<lparr> last_update = 200, last_modifying_update = 90,
                          last_full_update = 100, dump_task = Running kNewDump 100 90 \<rparr>,
         calls := [DomainUpdate kFull 0 100, DumpEngine kHonorDumpInterval,
                   SpawnDump kNewDump 0 100, RegisterNewDump 100,
                   DomainUpdate kIncremental 100 90, DumpEngine kHonorDumpInterval,
                   DomainUpdate kIncremental 90 200, DumpEngine kHonorDumpInterval,
                   SpawnDump kNewDump 100 90] \<rparr>"

definition bump_cache :: CacheUpdateTrait where
  "bump_cache =
     dumped_cache
       \<lparr> update_data := \<lparr> last_update = 200, last_modifying_update = 100,
                          last_full_update = 100, dump_task = Running kBumpTime 100 100 \<rparr>,
         calls := [DomainUpdate kFull 0 100, DumpEngine kHonorDumpInterval,
                   SpawnDump kNewDump 0 100, RegisterNewDump 100,
                   DomainUpdate kIncremental 100 200, DumpEngine kHonorDumpInterval,
                   SpawnDump kBumpTime 100 100] \<rparr>"

text \<open>The executions that lead to these states.\<close>

definition first_dump_run :: "Event list" where
  "first_dump_run =
     [StartEvent {} no_dump_on_disk 0 (update_at 100 True), DumpTaskEvent dump_succeeds]"

definition clock_back_run :: "Event list" where
  "clock_back_run = first_dump_run @ [TickEvent 110 (update_at 90 True)]"

definition stale_dump_run :: "Event list" where
  "stale_dump_run =
     clock_back_run @ [TickEvent 300 (update_at 200 False), DumpTaskEvent dump_succeeds]"

definition bump_run :: "Event list" where
  "bump_run =
     first_dump_run @ [TickEvent 300 (update_at 200 False), DumpTaskEvent dump_succeeds]"

text \<open>
  States at the ends of the 64-bit range. \<open>max_interval_cache\<close> is \<open>dumped_cache\<close>
  after \<^verbatim>\<open>SetConfig\<close> has installed a configuration whose \<open>full_update_interval\<close>
  is \<^verbatim>\<open>std::chrono::milliseconds::max()\<close>. \<open>far_future_cache\<close> is the cache after a
  bootstrap with \<open>kNoFirstUpdate\<close> that loads a dump stamped \<open>2 ^ 61\<close> microseconds
  after the epoch. \<open>early_steady_cache\<close> is the cache after a bootstrap whose first
  update reads the steady clock 1000 nanoseconds before its epoch
  (\<open>early_steady_update\<close>); \<open>last_steady_update\<close> is an update that reads the steady
  clock at its last instant. \<open>max_dump_interval_config\<close> sets \<open>min_dump_interval\<close> to
  \<^verbatim>\<open>std::chrono::milliseconds::max()\<close>, and \<open>one_ms_dump_interval_config\<close> to one
  millisecond.
\<close>

definition max_interval_config :: CacheConfigStatic where
  "max_interval_config = example_config\<lparr>full_update_interval := 9223372036854775807\<rparr>"

definition max_interval_cache :: CacheUpdateTrait where
  "max_interval_cache = dumped_cache\<lparr>config := max_interval_config\<rparr>"

definition far_future_cache :: CacheUpdateTrait where
  "far_future_cache =
     (Construct example_config True)
       \<lparr> is_running := True,
         last_dumped_update := 2305843009213693952,
         update_data := \<lparr> last_update = 2305843009213693952,
                          last_modifying_update = 2305843009213693952,
                          last_full_update = 0, dump_task = Invalid \<rparr>,
         update_task := Some \<lparr> period = 60, jitter = 5, task_flags = {kChaotic, kCritical} \<rparr>,
         cleanup_task := Some 30,
         cache_invalidator_holder := True,
         dump_is_loaded := True,
         dump_is_current_from_dump := True \<rparr>"

definition early_steady_update :: UpdateEnv where
  "early_steady_update =
     \<lparr> steady_now = - 1000, system_now = 100, calls_OnCacheModified = True,
       update_throws = None \<rparr>"

definition last_steady_update :: UpdateEnv where
  "last_steady_update =
     \<lparr> steady_now = 9223372036854775807, system_now = 200, calls_OnCacheModified = False,
       update_throws = None \<rparr>"

definition early_steady_cache :: CacheUpdateTrait where
  "early_steady_cache =
     started_cache
       \<lparr> update_data := \<lparr> last_update = 100, last_modifying_update = 100,
                          last_full_update = - 1000, dump_task = Running kNewDump 0 100 \<rparr> \<rparr>"

definition max_dump_interval_config :: CacheConfigStatic where
  "max_dump_interval_config = example_config\<lparr>min_dump_interval := 9223372036854775807\<rparr>"

definition one_ms_dump_interval_config :: CacheConfigStatic where
  "one_ms_dump_interval_config = example_config\<lparr>min_dump_interval := 1\<rparr>"
section \<open>Properties\<close>

subsection \<open>Clock arithmetic\<close>

lemma wrap_int64_fits: "fits_int64 x \<Longrightarrow> wrap_int64 x = x"
  by (simp add: fits_int64_def wrap_int64_def)

lemma wrap_int64_diff_right: "wrap_int64 (a - wrap_int64 b) = wrap_int64 (a - b)"
proof -
  have "(a - ((b + 2 ^ 63) mod 2 ^ 64 - 2 ^ 63) + 2 ^ 63) mod (2 ^ 64 :: int)
          = (a + 2 ^ 64 - (b + 2 ^ 63) mod 2 ^ 64) mod 2 ^ 64"
    by (simp add: algebra_simps)
  also have "\<dots> = (a + 2 ^ 64 - (b + 2 ^ 63)) mod 2 ^ 64"
    by (rule mod_diff_right_eq)
  also have "\<dots> = (a - b + 2 ^ 63) mod 2 ^ 64"
    by (simp add: algebra_simps)
  finally show ?thesis by (simp add: wrap_int64_def)
qed


subsection \<open>Reading the call log\<close>

lemma executed_types_append [simp]:
  "executed_types (xs @ ys) = executed_types xs @ executed_types ys"
  by (simp add: executed_types_def)

lemma executed_types_Nil [simp]: "executed_types [] = []"
  by (simp add: executed_types_def)

lemma executed_types_Cons [simp]:
  "executed_types (x # xs) = update_type_of x @ executed_types xs"
  by (simp add: executed_types_def)

lemma calls_Log [simp]: "calls (Log x c) = calls c @ [x]"
  by (simp add: Log_def)

lemma ShouldDump_not_running:
  "ShouldDump ty upd cfg c \<Longrightarrow> \<not> IsValid (dump_task upd) \<or> IsFinished (dump_task upd)"
  by (simp add: ShouldDump_def split: if_splits)

lemma executed_types_DumpAsync:
  "executed_types (calls (fst (DumpAsync operation_type c))) = executed_types (calls c)"
  by (simp add: DumpAsync_def Let_def split: option.splits)

lemma executed_types_DumpAsyncIfNeeded:
  "executed_types (calls (fst (DumpAsyncIfNeeded ty cfg c))) = executed_types (calls c)"
  by (simp add: DumpAsyncIfNeeded_def Let_def executed_types_DumpAsync)

lemma executed_types_DoUpdate:
  "executed_types (calls (fst (DoUpdate update_type env c)))
     = executed_types (calls c) @ [update_type]"
  by (simp add: DoUpdate_def Let_def OnCacheModified_def split: option.splits)

lemma force_next_update_full_Log [simp]:
  "force_next_update_full (Log x c) = force_next_update_full c"
  by (simp add: Log_def)

lemma force_next_update_full_DumpAsync:
  "force_next_update_full (fst (DumpAsync operation_type c)) = force_next_update_full c"
  by (simp add: DumpAsync_def Let_def split: option.splits)

lemma force_next_update_full_DumpAsyncIfNeeded:
  "force_next_update_full (fst (DumpAsyncIfNeeded ty cfg c)) = force_next_update_full c"
  by (simp add: DumpAsyncIfNeeded_def Let_def force_next_update_full_DumpAsync)

lemma force_next_update_full_DoUpdate:
  "force_next_update_full (fst (DoUpdate update_type env c)) = force_next_update_full c"
  by (simp add: DoUpdate_def Let_def OnCacheModified_def split: option.splits)

subsection \<open>What each operation does\<close>

lemma DoUpdate_success:
  "update_throws env = None \<Longrightarrow>
   DoUpdate ty env c =
     (c\<lparr>cache_modified := False,
        update_data := (update_data c)
          \<lparr>last_update := system_now env,
           last_modifying_update :=
             (if cache_modified c \<or> calls_OnCacheModified env then system_now env
              else last_modifying_update (update_data c)),
           last_full_update :=
             (if ty = kFull then steady_now env else last_full_update (update_data c))\<rparr>,
        dump_is_current_from_dump := False,
        calls := calls c @ [DomainUpdate ty (last_update (update_data c)) (system_now env)]\<rparr>,
      None)"
  by (simp add: DoUpdate_def Let_def Log_def OnCacheModified_def)

lemma DoUpdate_failure:
  "update_throws env = Some e \<Longrightarrow>
   DoUpdate ty env c =
     (c\<lparr>cache_modified := (cache_modified c \<or> calls_OnCacheModified env),
        calls := calls c @ [DomainUpdate ty (last_update (update_data c)) (system_now env)]\<rparr>,
      Some e)"
  by (simp add: DoUpdate_def Let_def Log_def OnCacheModified_def)

lemma snd_DoUpdate: "snd (DoUpdate ty env c) = update_throws env"
  by (cases "update_throws env") (simp_all add: DoUpdate_success DoUpdate_failure)

lemma DumpAsync_throws_other:
  "snd (DumpAsync op c) = Some e \<Longrightarrow> \<not> IsStdException e"
  by (auto simp add: DumpAsync_def Let_def split: option.splits if_splits)

lemma DumpAsyncIfNeeded_throws_other:
  "snd (DumpAsyncIfNeeded ty cfg c) = Some e \<Longrightarrow> \<not> IsStdException e"
  by (auto simp add: DumpAsyncIfNeeded_def Let_def split: if_splits dest: DumpAsync_throws_other)

lemma DoPeriodicUpdate_rule:
  assumes u: "\<And>ty. P (fst (DoUpdate ty env (c\<lparr>force_next_update_full := False\<rparr>)))"
    and d: "\<And>x. P x \<Longrightarrow> P (fst (DumpAsyncIfNeeded kHonorDumpInterval (GetConfig c) x))"
  shows "P (fst (DoPeriodicUpdate sn env c))"
proof -
  define ty where "ty =
    (if \<not> (force_next_update_full c \<or> wrap_int64 (last_update (update_data c) * 1000) = 0) then
       (case allowed_update_types (GetConfig c) of
          kOnlyFull \<Rightarrow> kFull
        | kOnlyIncremental \<Rightarrow> kIncremental
        | kFullAndIncremental \<Rightarrow>
            if wrap_int64 (sn - last_full_update (update_data (c\<lparr>force_next_update_full := False\<rparr>)))
                 < wrap_int64 (full_update_interval (GetConfig c) * 1000000)
            then kIncremental else kFull)
     else kFull)"
  define c1 where "c1 = fst (DoUpdate ty env (c\<lparr>force_next_update_full := False\<rparr>))"
  define c2 where "c2 = fst (DumpAsyncIfNeeded kHonorDumpInterval (GetConfig c) c1)"
  define c3 where "c3 = fst (DumpAsyncIfNeeded kHonorDumpInterval (GetConfig c) c2)"
  have p1: "P c1" unfolding c1_def by (rule u)
  have p2: "P c2" unfolding c2_def by (rule d [OF p1])
  have p3: "P c3" unfolding c3_def by (rule d [OF p2])
  have "fst (DoPeriodicUpdate sn env c) = c1 \<or> fst (DoPeriodicUpdate sn env c) = c2
        \<or> fst (DoPeriodicUpdate sn env c) = c3"
    unfolding DoPeriodicUpdate_def Let_def ty_def [symmetric]
    by (auto simp add: c1_def c2_def c3_def split: prod.splits option.splits)
  then show ?thesis
  proof (elim disjE)
    assume "fst (DoPeriodicUpdate sn env c) = c1" then show ?thesis using p1 by simp
  next
    assume "fst (DoPeriodicUpdate sn env c) = c2" then show ?thesis using p2 by simp
  next
    assume "fst (DoPeriodicUpdate sn env c) = c3" then show ?thesis using p3 by simp
  qed
qed

lemma fst_FirstUpdate:
  "fst (FirstUpdate dump_loaded cfg sn env c) = fst (DoPeriodicUpdate sn env c)"
  by (simp add: FirstUpdate_def split: prod.splits option.splits)

lemma StartPeriodicUpdates_running:
  "is_running c \<Longrightarrow> StartPeriodicUpdates flags le sn env c = (c, None)"
  by (simp add: StartPeriodicUpdates_def)

lemma StartPeriodicUpdates_load_throws:
  "\<not> is_running c \<Longrightarrow> LoadFromDump (GetConfig c) le (EnterStart c) = (cL, Inl e) \<Longrightarrow>
   StartPeriodicUpdates flags le sn env c = (cL\<lparr>is_running := False\<rparr>, Some e)"
  by (simp add: StartPeriodicUpdates_def StartBody_def Let_def)

lemma StartPeriodicUpdates_no_first_update:
  "\<not> is_running c \<Longrightarrow> LoadFromDump (GetConfig c) le (EnterStart c) = (cL, Inr dl) \<Longrightarrow>
   \<not> ((\<not> dl \<or> first_update_mode (GetConfig c) \<noteq> kSkip) \<and>
       (\<not> (kNoFirstUpdate \<in> flags) \<or> \<not> periodic_update_enabled cL)) \<Longrightarrow>
   StartPeriodicUpdates flags le sn env c = (StartTasks dl (GetConfig c) cL, None)"
  by (auto simp add: StartPeriodicUpdates_def StartBody_def Let_def)

lemma StartPeriodicUpdates_first_update:
  "\<not> is_running c \<Longrightarrow> LoadFromDump (GetConfig c) le (EnterStart c) = (cL, Inr dl) \<Longrightarrow>
   (\<not> dl \<or> first_update_mode (GetConfig c) \<noteq> kSkip) \<and>
       (\<not> (kNoFirstUpdate \<in> flags) \<or> \<not> periodic_update_enabled cL) \<Longrightarrow>
   FirstUpdate dl (GetConfig c) sn env cL = (cU, r) \<Longrightarrow>
   StartPeriodicUpdates flags le sn env c =
     (case r of Some e \<Rightarrow> (cU\<lparr>is_running := False\<rparr>, Some e)
              | None \<Rightarrow> (StartTasks dl (GetConfig c) cU, None))"
  by (auto simp add: StartPeriodicUpdates_def StartBody_def Let_def split: option.splits)

lemma StartPeriodicUpdates_rule:
  assumes r: "is_running c \<Longrightarrow> P c"
    and l: "\<not> is_running c \<Longrightarrow> P (fst (LoadFromDump (GetConfig c) le (EnterStart c)))"
    and u: "\<not> is_running c \<Longrightarrow>
            P (fst (DoPeriodicUpdate sn env (fst (LoadFromDump (GetConfig c) le (EnterStart c)))))"
    and t: "\<And>x b. P x \<Longrightarrow> P (StartTasks b (GetConfig c) x)"
    and f: "\<And>x. P x \<Longrightarrow> P (x\<lparr>is_running := False\<rparr>)"
  shows "P (fst (StartPeriodicUpdates flags le sn env c))"
proof (cases "is_running c")
  case True
  then show ?thesis using r by (simp add: StartPeriodicUpdates_running)
next
  case False
  obtain cL rL where L: "LoadFromDump (GetConfig c) le (EnterStart c) = (cL, rL)"
    by (cases "LoadFromDump (GetConfig c) le (EnterStart c)")
  have pL: "P cL" using l [OF False] L by simp
  show ?thesis
  proof (cases rL)
    case (Inl e)
    show ?thesis
      using StartPeriodicUpdates_load_throws [OF False L [unfolded Inl]] f [OF pL] by simp
  next
    case (Inr dl)
    note L' = L [unfolded Inr]
    show ?thesis
    proof (cases "(\<not> dl \<or> first_update_mode (GetConfig c) \<noteq> kSkip) \<and>
       (\<not> (kNoFirstUpdate \<in> flags) \<or> \<not> periodic_update_enabled cL)")
      case no: False
      show ?thesis
        using StartPeriodicUpdates_no_first_update [OF False L' no] t [OF pL] by simp
    next
      case yes: True
      obtain cU rU where U: "FirstUpdate dl (GetConfig c) sn env cL = (cU, rU)"
        by (cases "FirstUpdate dl (GetConfig c) sn env cL")
      have "cU = fst (DoPeriodicUpdate sn env cL)"
        using fst_FirstUpdate [of dl "GetConfig c" sn env cL] U by simp
      then have pU: "P cU" using u [OF False] L by simp
      show ?thesis
        using StartPeriodicUpdates_first_update [OF False L' yes U] t [OF pU] f [OF pU]
        by (cases rU) simp_all
    qed
  qed
qed

lemma driver_steps_append [simp]:
  "driver_steps (xs @ ys) = driver_steps xs @ driver_steps ys"
  by (simp add: driver_steps_def)

lemma driver_steps_Nil [simp]: "driver_steps [] = []"
  by (simp add: driver_steps_def)

lemma driver_steps_Cons [simp]:
  "driver_steps (x # xs) = driver_step_of x @ driver_steps xs"
  by (simp add: driver_steps_def)

lemma spawned_append [simp]: "spawned (xs @ ys) = spawned xs @ spawned ys"
  by (simp add: spawned_def)

lemma spawned_Nil [simp]: "spawned [] = []"
  by (simp add: spawned_def)

lemma spawned_Cons [simp]: "spawned (x # xs) = spawn_of x @ spawned xs"
  by (simp add: spawned_def)

text \<open>Frames of the primitive steps.\<close>

lemma Log_fields [simp]:
  "static_config (Log x c) = static_config c"
  "config (Log x c) = config c"
  "periodic_update_enabled (Log x c) = periodic_update_enabled c"
  "is_running (Log x c) = is_running c"
  "periodic_task_flags (Log x c) = periodic_task_flags c"
  "cache_modified (Log x c) = cache_modified c"
  "last_dumped_update (Log x c) = last_dumped_update c"
  "update_data (Log x c) = update_data c"
  "update_task (Log x c) = update_task c"
  "cleanup_task (Log x c) = cleanup_task c"
  by (simp_all add: Log_def)

lemma DumpAsync_fields:
  "static_config (fst (DumpAsync op c)) = static_config c"
  "config (fst (DumpAsync op c)) = config c"
  "periodic_update_enabled (fst (DumpAsync op c)) = periodic_update_enabled c"
  "is_running (fst (DumpAsync op c)) = is_running c"
  "cache_modified (fst (DumpAsync op c)) = cache_modified c"
  "last_dumped_update (fst (DumpAsync op c)) = last_dumped_update c"
  "last_update (update_data (fst (DumpAsync op c))) = last_update (update_data c)"
  "last_modifying_update (update_data (fst (DumpAsync op c)))
     = last_modifying_update (update_data c)"
  "last_full_update (update_data (fst (DumpAsync op c))) = last_full_update (update_data c)"
  "update_task (fst (DumpAsync op c)) = update_task c"
  "cleanup_task (fst (DumpAsync op c)) = cleanup_task c"
  "driver_steps (calls (fst (DumpAsync op c))) = driver_steps (calls c)"
  by (simp_all add: DumpAsync_def Let_def split: option.splits)

lemma DumpAsyncIfNeeded_fields:
  "static_config (fst (DumpAsyncIfNeeded ty cfg c)) = static_config c"
  "config (fst (DumpAsyncIfNeeded ty cfg c)) = config c"
  "periodic_update_enabled (fst (DumpAsyncIfNeeded ty cfg c)) = periodic_update_enabled c"
  "is_running (fst (DumpAsyncIfNeeded ty cfg c)) = is_running c"
  "cache_modified (fst (DumpAsyncIfNeeded ty cfg c)) = cache_modified c"
  "last_dumped_update (fst (DumpAsyncIfNeeded ty cfg c)) = last_dumped_update c"
  "last_update (update_data (fst (DumpAsyncIfNeeded ty cfg c))) = last_update (update_data c)"
  "last_modifying_update (update_data (fst (DumpAsyncIfNeeded ty cfg c)))
     = last_modifying_update (update_data c)"
  "last_full_update (update_data (fst (DumpAsyncIfNeeded ty cfg c)))
     = last_full_update (update_data c)"
  "update_task (fst (DumpAsyncIfNeeded ty cfg c)) = update_task c"
  "cleanup_task (fst (DumpAsyncIfNeeded ty cfg c)) = cleanup_task c"
  "driver_steps (calls (fst (DumpAsyncIfNeeded ty cfg c)))
     = driver_steps (calls c) @ [DumpEngine ty]"
  by (simp_all add: DumpAsyncIfNeeded_def Let_def DumpAsync_fields)

lemma DoUpdate_fields:
  "static_config (fst (DoUpdate ty env c)) = static_config c"
  "config (fst (DoUpdate ty env c)) = config c"
  "periodic_update_enabled (fst (DoUpdate ty env c)) = periodic_update_enabled c"
  "is_running (fst (DoUpdate ty env c)) = is_running c"
  "last_dumped_update (fst (DoUpdate ty env c)) = last_dumped_update c"
  "dump_task (update_data (fst (DoUpdate ty env c))) = dump_task (update_data c)"
  "update_task (fst (DoUpdate ty env c)) = update_task c"
  "cleanup_task (fst (DoUpdate ty env c)) = cleanup_task c"
  "driver_steps (calls (fst (DoUpdate ty env c)))
     = driver_steps (calls c) @ [DomainUpdate ty (last_update (update_data c)) (system_now env)]"
  by (cases "update_throws env"; simp add: DoUpdate_success DoUpdate_failure)+

lemma IsStdException_cases: "IsStdException e = (\<forall>n. e \<noteq> OtherException n)"
  by (cases e) simp_all

lemma ShouldDump_Log [simp]: "ShouldDump ty upd cfg (Log x c) = ShouldDump ty upd cfg c"
  by (simp add: ShouldDump_def GetLastDumpedUpdate_def)

lemma DumpAsync_returns:
  "\<forall>n. Get (dump_task (update_data c)) \<noteq> Some (OtherException n) \<Longrightarrow>
   snd (DumpAsync op c) = None"
  by (auto simp add: DumpAsync_def Let_def IsStdException_cases split: option.splits)

lemma DumpAsyncIfNeeded_returns:
  "\<forall>n. Get (dump_task (update_data c)) \<noteq> Some (OtherException n) \<Longrightarrow>
   snd (DumpAsyncIfNeeded ty cfg c) = None"
  by (simp add: DumpAsyncIfNeeded_def Let_def DumpAsync_returns)

lemma DumpAsyncIfNeeded_skips:
  "\<not> ShouldDump ty (update_data c) cfg c \<Longrightarrow>
   DumpAsyncIfNeeded ty cfg c = (Log (DumpEngine ty) c, None)"
  by (simp add: DumpAsyncIfNeeded_def Let_def)


lemma DoPeriodicUpdate_fields:
  "static_config (fst (DoPeriodicUpdate sn env c)) = static_config c"
  "config (fst (DoPeriodicUpdate sn env c)) = config c"
  "periodic_update_enabled (fst (DoPeriodicUpdate sn env c)) = periodic_update_enabled c"
  "is_running (fst (DoPeriodicUpdate sn env c)) = is_running c"
  "update_task (fst (DoPeriodicUpdate sn env c)) = update_task c"
  "cleanup_task (fst (DoPeriodicUpdate sn env c)) = cleanup_task c"
  by (rule DoPeriodicUpdate_rule; simp add: DoUpdate_fields DumpAsyncIfNeeded_fields)+

lemma LoadFromDump_fields:
  "static_config (fst (LoadFromDump cfg le c)) = static_config c"
  "config (fst (LoadFromDump cfg le c)) = config c"
  "periodic_update_enabled (fst (LoadFromDump cfg le c)) = periodic_update_enabled c"
  "is_running (fst (LoadFromDump cfg le c)) = is_running c"
  "update_task (fst (LoadFromDump cfg le c)) = update_task c"
  "cleanup_task (fst (LoadFromDump cfg le c)) = cleanup_task c"
  "calls (fst (LoadFromDump cfg le c)) = calls c"
  "dump_task (update_data (fst (LoadFromDump cfg le c))) = dump_task (update_data c)"
  "force_next_update_full (fst (LoadFromDump cfg le c)) = force_next_update_full c"
  by (simp_all add: LoadFromDump_def split: sum.splits option.splits)

lemma snd_LoadFromDump_EnterStart:
  "snd (LoadFromDump cfg le (EnterStart c)) = snd (LoadFromDump cfg le c)"
  by (simp add: LoadFromDump_def split: sum.splits option.splits)

lemma EnterStart_fields [simp]:
  "static_config (EnterStart c) = static_config c"
  "config (EnterStart c) = config c"
  "periodic_update_enabled (EnterStart c) = periodic_update_enabled c"
  "is_running (EnterStart c) = True"
  "update_task (EnterStart c) = update_task c"
  "cleanup_task (EnterStart c) = cleanup_task c"
  "calls (EnterStart c) = calls c"
  "update_data (EnterStart c) = update_data c"
  "last_dumped_update (EnterStart c) = last_dumped_update c"
  "force_next_update_full (EnterStart c) = force_next_update_full c"
  by (simp_all add: EnterStart_def)

lemma StartTasks_fields [simp]:
  "static_config (StartTasks b cfg c) = static_config c"
  "config (StartTasks b cfg c) = config c"
  "periodic_update_enabled (StartTasks b cfg c) = periodic_update_enabled c"
  "is_running (StartTasks b cfg c) = is_running c"
  "calls (StartTasks b cfg c) = calls c"
  "update_data (StartTasks b cfg c) = update_data c"
  "last_dumped_update (StartTasks b cfg c) = last_dumped_update c"
  by (simp_all add: StartTasks_def Let_def)

lemma DoPeriodicUpdate_unfold:
  shows "DoPeriodicUpdate sn env c =
     (case DoUpdate (TickUpdateType sn c) env (c\<lparr>force_next_update_full := False\<rparr>) of
        (c1, None) \<Rightarrow>
          (case DumpAsyncIfNeeded kHonorDumpInterval (config c) c1 of
             (c2, None) \<Rightarrow> (c2, None)
           | (c2, Some ex) \<Rightarrow>
               if IsStdException ex
               then (case DumpAsyncIfNeeded kHonorDumpInterval (config c) c2 of
                       (c3, None) \<Rightarrow> (c3, Some ex)
                     | (c3, Some e') \<Rightarrow> (c3, Some e'))
               else (c2, Some ex))
      | (c1, Some ex) \<Rightarrow>
          if IsStdException ex
          then (case DumpAsyncIfNeeded kHonorDumpInterval (config c) c1 of
                  (c3, None) \<Rightarrow> (c3, Some ex)
                | (c3, Some e') \<Rightarrow> (c3, Some e'))
          else (c1, Some ex))"
proof -
  have ty': "(if \<not> (force_next_update_full c \<or> wrap_int64 (last_update (update_data c) * 1000) = 0) then
       (case allowed_update_types (config c) of
          kOnlyFull \<Rightarrow> kFull
        | kOnlyIncremental \<Rightarrow> kIncremental
        | kFullAndIncremental \<Rightarrow>
            if wrap_int64 (sn - last_full_update (update_data (c\<lparr>force_next_update_full := False\<rparr>)))
                 < wrap_int64 (full_update_interval (config c) * 1000000)
            then kIncremental else kFull)
     else kFull) = TickUpdateType sn c"
    unfolding TickUpdateType_def by simp
  obtain c1 r1 where du: "DoUpdate (TickUpdateType sn c) env (c\<lparr>force_next_update_full := False\<rparr>) = (c1, r1)"
    by (cases "DoUpdate (TickUpdateType sn c) env (c\<lparr>force_next_update_full := False\<rparr>)")
  show ?thesis
    unfolding DoPeriodicUpdate_def GetConfig_def Let_def ty' du
    by (cases r1) simp_all
qed

lemma DoPeriodicUpdate_update_ok:
  assumes ok: "update_throws env = None"
  shows "DoPeriodicUpdate sn env c =
     DumpAsyncIfNeeded kHonorDumpInterval (config c)
       (fst (DoUpdate (TickUpdateType sn c) env (c\<lparr>force_next_update_full := False\<rparr>)))"
proof -
  obtain c1 where du: "DoUpdate (TickUpdateType sn c) env (c\<lparr>force_next_update_full := False\<rparr>) = (c1, None)"
    using snd_DoUpdate [of "TickUpdateType sn c" env "c\<lparr>force_next_update_full := False\<rparr>"] ok
    by (cases "DoUpdate (TickUpdateType sn c) env (c\<lparr>force_next_update_full := False\<rparr>)") simp
  obtain c2 r2 where d1: "DumpAsyncIfNeeded kHonorDumpInterval (config c) c1 = (c2, r2)"
    by (cases "DumpAsyncIfNeeded kHonorDumpInterval (config c) c1")
  have "r2 = None \<or> (\<exists>ex. r2 = Some ex \<and> \<not> IsStdException ex)"
    using DumpAsyncIfNeeded_throws_other [of kHonorDumpInterval "config c" c1] d1
    by (cases r2) simp_all
  then show ?thesis
    using DoPeriodicUpdate_unfold [of sn env c] du d1 by auto
qed

lemma DoPeriodicUpdate_update_throws_std:
  assumes thr: "update_throws env = Some e" and std: "IsStdException e"
  shows "DoPeriodicUpdate sn env c =
     (case DumpAsyncIfNeeded kHonorDumpInterval (config c)
             (fst (DoUpdate (TickUpdateType sn c) env (c\<lparr>force_next_update_full := False\<rparr>))) of
        (c3, None) \<Rightarrow> (c3, Some e)
      | (c3, Some e') \<Rightarrow> (c3, Some e'))"
proof -
  obtain c1 where du: "DoUpdate (TickUpdateType sn c) env (c\<lparr>force_next_update_full := False\<rparr>) = (c1, Some e)"
    using snd_DoUpdate [of "TickUpdateType sn c" env "c\<lparr>force_next_update_full := False\<rparr>"] thr
    by (cases "DoUpdate (TickUpdateType sn c) env (c\<lparr>force_next_update_full := False\<rparr>)") simp
  show ?thesis
    using DoPeriodicUpdate_unfold [of sn env c] du std by simp
qed

lemma DoPeriodicUpdate_update_throws_other:
  assumes thr: "update_throws env = Some e" and other: "\<not> IsStdException e"
  shows "DoPeriodicUpdate sn env c =
     (fst (DoUpdate (TickUpdateType sn c) env (c\<lparr>force_next_update_full := False\<rparr>)), Some e)"
proof -
  obtain c1 where du: "DoUpdate (TickUpdateType sn c) env (c\<lparr>force_next_update_full := False\<rparr>) = (c1, Some e)"
    using snd_DoUpdate [of "TickUpdateType sn c" env "c\<lparr>force_next_update_full := False\<rparr>"] thr
    by (cases "DoUpdate (TickUpdateType sn c) env (c\<lparr>force_next_update_full := False\<rparr>)") simp
  show ?thesis
    using DoPeriodicUpdate_unfold [of sn env c] du other by simp
qed

lemma fst_rethrow:
  "fst (case x of (c3, None) \<Rightarrow> (c3, Some e) | (c3, Some e') \<Rightarrow> (c3, Some e')) = fst x"
  by (simp split: prod.splits option.splits)

lemma snd_rethrow:
  "snd (case x of (c3, None) \<Rightarrow> (c3, Some e) | (c3, Some e') \<Rightarrow> (c3, Some e'))
     = (case snd x of None \<Rightarrow> Some e | Some e' \<Rightarrow> Some e')"
  by (simp split: prod.splits option.splits)

lemma fst_DoPeriodicUpdate:
  "fst (DoPeriodicUpdate sn env c) =
     (case update_throws env of
        None \<Rightarrow> fst (DumpAsyncIfNeeded kHonorDumpInterval (config c)
                      (fst (DoUpdate (TickUpdateType sn c) env
                              (c\<lparr>force_next_update_full := False\<rparr>))))
      | Some e \<Rightarrow>
          if IsStdException e
          then fst (DumpAsyncIfNeeded kHonorDumpInterval (config c)
                      (fst (DoUpdate (TickUpdateType sn c) env
                              (c\<lparr>force_next_update_full := False\<rparr>))))
          else fst (DoUpdate (TickUpdateType sn c) env (c\<lparr>force_next_update_full := False\<rparr>)))"
proof (cases "update_throws env")
  case None
  then show ?thesis by (simp add: DoPeriodicUpdate_update_ok)
next
  case (Some e)
  then show ?thesis
    by (cases "IsStdException e")
      (simp_all add: DoPeriodicUpdate_update_throws_std DoPeriodicUpdate_update_throws_other
         fst_rethrow)
qed

lemma snd_DoPeriodicUpdate_throws:
  "update_throws env = Some e \<Longrightarrow>
   snd (DoPeriodicUpdate sn env c) =
     (if IsStdException e
      then (case snd (DumpAsyncIfNeeded kHonorDumpInterval (config c)
                        (fst (DoUpdate (TickUpdateType sn c) env
                                (c\<lparr>force_next_update_full := False\<rparr>)))) of
              None \<Rightarrow> Some e
            | Some e' \<Rightarrow> Some e')
      else Some e)"
  by (cases "IsStdException e")
    (simp_all add: DoPeriodicUpdate_update_throws_std DoPeriodicUpdate_update_throws_other
       snd_rethrow)

lemma executed_types_DoPeriodicUpdate:
  "executed_types (calls (fst (DoPeriodicUpdate sn env c)))
     = executed_types (calls c) @ [TickUpdateType sn c]"
  by (simp add: fst_DoPeriodicUpdate executed_types_DumpAsyncIfNeeded executed_types_DoUpdate
        split: option.splits)

lemma driver_steps_DoPeriodicUpdate:
  "driver_steps (calls (fst (DoPeriodicUpdate sn env c))) =
     driver_steps (calls c) @
       DomainUpdate (TickUpdateType sn c) (last_update (update_data c)) (system_now env) #
       (case update_throws env of
          None \<Rightarrow> [DumpEngine kHonorDumpInterval]
        | Some e \<Rightarrow> if IsStdException e then [DumpEngine kHonorDumpInterval] else [])"
  by (simp add: fst_DoPeriodicUpdate DumpAsyncIfNeeded_fields DoUpdate_fields
        split: option.splits)

lemma DoPeriodicUpdate_rethrows:
  assumes thr: "update_throws env = Some e" and std: "IsStdException e"
    and prev: "\<forall>n. Get (dump_task (update_data c)) \<noteq> Some (OtherException n)"
  shows "snd (DoPeriodicUpdate sn env c) = Some e"
proof -
  have "dump_task (update_data (fst (DoUpdate (TickUpdateType sn c) env
          (c\<lparr>force_next_update_full := False\<rparr>)))) = dump_task (update_data c)"
    by (simp add: DoUpdate_fields)
  then have "snd (DumpAsyncIfNeeded kHonorDumpInterval (config c)
                    (fst (DoUpdate (TickUpdateType sn c) env
                            (c\<lparr>force_next_update_full := False\<rparr>)))) = None"
    using prev by (simp add: DumpAsyncIfNeeded_returns)
  then show ?thesis
    using thr std by (simp add: snd_DoPeriodicUpdate_throws)
qed


lemma force_next_update_full_DoPeriodicUpdate:
  "\<not> force_next_update_full (fst (DoPeriodicUpdate sn env c))"
  by (simp add: fst_DoPeriodicUpdate force_next_update_full_DumpAsyncIfNeeded
        force_next_update_full_DoUpdate split: option.splits)




subsection \<open>The dump task\<close>

lemma DumpBody_fields:
  "last_dumped_update (fst (DumpBody op old new env c)) = last_dumped_update c"
  "update_data (fst (DumpBody op old new env c)) = update_data c"
  "config (fst (DumpBody op old new env c)) = config c"
  "static_config (fst (DumpBody op old new env c)) = static_config c"
  "is_running (fst (DumpBody op old new env c)) = is_running c"
  "spawned (calls (fst (DumpBody op old new env c))) = spawned (calls c)"
  "executed_types (calls (fst (DumpBody op old new env c))) = executed_types (calls c)"
  "snd (DumpBody op old new env (Log x c)) = snd (DumpBody op old new env c)"
  by (simp_all add: DumpBody_def DoDump_def Let_def
        split: DumpOperation.splits option.splits Exception.splits)

lemma RunDumpTask_Running:
  "dump_task (update_data c) = Running op old new \<Longrightarrow>
   RunDumpTask env c =
     (case snd (DumpBody op old new env c) of
        Inr success \<Rightarrow>
          (if success then (fst (DumpBody op old new env c))\<lparr>last_dumped_update := new\<rparr>
           else fst (DumpBody op old new env c))
            \<lparr>update_data := (update_data c)\<lparr>dump_task := Finished None\<rparr>\<rparr>
      | Inl e \<Rightarrow>
          (fst (DumpBody op old new env c))
            \<lparr>update_data := (update_data c)\<lparr>dump_task := Finished (Some e)\<rparr>\<rparr>)"
proof -
  assume t: "dump_task (update_data c) = Running op old new"
  obtain c1 r where b: "DumpBody op old new env c = (c1, r)"
    by (cases "DumpBody op old new env c")
  have u: "update_data c1 = update_data c"
    using DumpBody_fields(2) [of op old new env c] b by simp
  show ?thesis
    using t b u by (cases r) (simp_all add: RunDumpTask_def)
qed

lemma RunDumpTask_not_running:
  "\<not> IsValid (dump_task (update_data c)) \<or> IsFinished (dump_task (update_data c)) \<Longrightarrow>
   RunDumpTask env c = c"
  by (cases "dump_task (update_data c)") (simp_all add: RunDumpTask_def)

lemma RunDumpTask_last_dumped_update:
  "dump_task (update_data c) = Running op old new \<Longrightarrow>
   last_dumped_update (RunDumpTask env c) =
     (if snd (DumpBody op old new env c) = Inr True then new else last_dumped_update c)"
  by (simp add: RunDumpTask_Running DumpBody_fields split: sum.splits)

lemma RunDumpTask_finishes:
  "dump_task (update_data c) = Running op old new \<Longrightarrow>
   IsFinished (dump_task (update_data (RunDumpTask env c)))"
  by (simp add: RunDumpTask_Running DumpBody_fields split: sum.splits)

lemma RunDumpTask_spawned:
  "spawned (calls (RunDumpTask env c)) = spawned (calls c)"
proof (cases "dump_task (update_data c)")
  case (Running op old new)
  then show ?thesis
    by (simp add: RunDumpTask_Running DumpBody_fields split: sum.splits)
qed (simp_all add: RunDumpTask_def)

lemma DumpBody_calls:
  "\<exists>rest. calls (fst (DumpBody op old new env c)) = calls c @ rest"
  by (simp add: DumpBody_def DoDump_def Let_def
        split: DumpOperation.splits option.splits Exception.splits)

lemma RunDumpTask_calls:
  "\<exists>rest. calls (RunDumpTask env c) = calls c @ rest"
proof (cases "dump_task (update_data c)")
  case (Running op old new)
  then show ?thesis
    using DumpBody_calls [of op old new env c]
    by (auto simp add: RunDumpTask_Running split: sum.splits)
qed (simp_all add: RunDumpTask_def)

lemma DumpSyncDebug_skipped:
  assumes "\<not> ShouldDump kForced (update_data c) (config c) c"
  shows "DumpSyncDebug env c =
     (if IsValid (dump_task (update_data c))
      then RunDumpTask env
             (Log (WaitDumpTask (\<not> IsFinished (dump_task (update_data c))))
                (Log (DumpEngine kForced) c))
      else Log (DumpEngine kForced) c, None)"
  using assms
  by (simp add: DumpSyncDebug_def GetConfig_def DumpAsyncIfNeeded_skips Wait_def)


subsection \<open>The instants of the update data\<close>

lemma RunDumpTask_instants:
  "last_update (update_data (RunDumpTask env c)) = last_update (update_data c)"
  "last_modifying_update (update_data (RunDumpTask env c)) = last_modifying_update (update_data c)"
  "config (RunDumpTask env c) = config c"
  "executed_types (calls (RunDumpTask env c)) = executed_types (calls c)"
proof -
  have "last_update (update_data (RunDumpTask env c)) = last_update (update_data c)
      \<and> last_modifying_update (update_data (RunDumpTask env c))
          = last_modifying_update (update_data c)
      \<and> config (RunDumpTask env c) = config c
      \<and> executed_types (calls (RunDumpTask env c)) = executed_types (calls c)"
  proof (cases "dump_task (update_data c)")
    case (Running op old new)
    show ?thesis
      by (simp add: RunDumpTask_Running [OF Running] DumpBody_fields split: sum.splits)
  qed (simp_all add: RunDumpTask_def)
  then show
    "last_update (update_data (RunDumpTask env c)) = last_update (update_data c)"
    "last_modifying_update (update_data (RunDumpTask env c))
       = last_modifying_update (update_data c)"
    "config (RunDumpTask env c) = config c"
    "executed_types (calls (RunDumpTask env c)) = executed_types (calls c)"
    by simp_all
qed

lemma Wait_instants:
  "last_update (update_data (Wait env c)) = last_update (update_data c)"
  "last_modifying_update (update_data (Wait env c)) = last_modifying_update (update_data c)"
  "config (Wait env c) = config c"
  "executed_types (calls (Wait env c)) = executed_types (calls c)"
  by (simp_all add: Wait_def RunDumpTask_instants)

lemma DumpSyncDebug_cases:
  "fst (DumpSyncDebug env c) = fst (DumpAsyncIfNeeded kForced (config c) c)
   \<or> fst (DumpSyncDebug env c) = Wait env (fst (DumpAsyncIfNeeded kForced (config c) c))"
  by (simp add: DumpSyncDebug_def GetConfig_def split: prod.splits option.splits)

lemma DumpSyncDebug_instants:
  "last_update (update_data (fst (DumpSyncDebug env c))) = last_update (update_data c)"
  "last_modifying_update (update_data (fst (DumpSyncDebug env c)))
     = last_modifying_update (update_data c)"
  "config (fst (DumpSyncDebug env c)) = config c"
  "executed_types (calls (fst (DumpSyncDebug env c))) = executed_types (calls c)"
  using DumpSyncDebug_cases [of env c]
  by (auto simp add: Wait_instants DumpAsyncIfNeeded_fields executed_types_DumpAsyncIfNeeded)

lemma StopPeriodicUpdates_cases:
  "StopPeriodicUpdates cancel_env c = c
   \<or> StopPeriodicUpdates cancel_env c
        = c\<lparr>is_running := False, update_task := None, cleanup_task := None\<rparr>
   \<or> (\<exists>env. StopPeriodicUpdates cancel_env c
        = Wait env (c\<lparr>is_running := False, update_task := None, cleanup_task := None\<rparr>))
   \<or> ((\<exists>op old new. dump_task (update_data c) = Running op old new) \<and>
       StopPeriodicUpdates cancel_env c
        = (Log (WaitDumpTask True)
             (c\<lparr>is_running := False, update_task := None, cleanup_task := None\<rparr>))
            \<lparr>update_data := (update_data c)\<lparr>dump_task := Finished (Some (StdException 0))\<rparr>\<rparr>)"
  by (cases "dump_task (update_data c)")
     (auto simp add: StopPeriodicUpdates_def Let_def split: option.splits)

lemma StopPeriodicUpdates_instants:
  "last_update (update_data (StopPeriodicUpdates cancel_env c)) = last_update (update_data c)"
  "last_modifying_update (update_data (StopPeriodicUpdates cancel_env c))
     = last_modifying_update (update_data c)"
  "config (StopPeriodicUpdates cancel_env c) = config c"
  "executed_types (calls (StopPeriodicUpdates cancel_env c)) = executed_types (calls c)"
  using StopPeriodicUpdates_cases [of cancel_env c]
  by (auto simp add: Wait_instants)

lemma SetConfig_instants:
  "update_data (SetConfig new_config c) = update_data c"
  "last_dumped_update (SetConfig new_config c) = last_dumped_update c"
  "config (SetConfig new_config c) = new_config"
  "calls (SetConfig new_config c) = calls c"
  by (simp_all add: SetConfig_def Let_def)

lemma LoadFromDump_EnterStart:
  "update_data (fst (LoadFromDump cfg le (EnterStart c))) = update_data (fst (LoadFromDump cfg le c))"
  "last_dumped_update (fst (LoadFromDump cfg le (EnterStart c)))
     = last_dumped_update (fst (LoadFromDump cfg le c))"
  by (simp_all add: LoadFromDump_def EnterStart_def split: sum.splits option.splits)

lemma LoadFromDump_instants:
  "last_modifying_update (update_data (fst (LoadFromDump cfg le c)))
     \<le> last_update (update_data (fst (LoadFromDump cfg le c)))
   \<or> update_data (fst (LoadFromDump cfg le c)) = update_data c"
  by (simp add: LoadFromDump_def split: sum.splits option.splits)

lemma LoadFromDump_loaded:
  "snd (LoadFromDump cfg le c) = Inr True \<Longrightarrow>
   \<exists>T. ReadLatestDump le = Inr (Some T)
     \<and> last_update (update_data (fst (LoadFromDump cfg le c))) = T
     \<and> last_modifying_update (update_data (fst (LoadFromDump cfg le c))) = T
     \<and> last_dumped_update (fst (LoadFromDump cfg le c)) = max (last_dumped_update c) T"
  by (simp add: LoadFromDump_def split: sum.splits option.splits if_splits)

text \<open>The instants of an update stay in order when the clock is not behind.\<close>

lemma DoUpdate_in_order:
  assumes "last_modifying_update (update_data c) \<le> last_update (update_data c)"
    and "last_modifying_update (update_data c) \<le> system_now env"
  shows "last_modifying_update (update_data (fst (DoUpdate ty env c)))
           \<le> last_update (update_data (fst (DoUpdate ty env c)))"
  using assms
  by (cases "update_throws env") (simp_all add: DoUpdate_success DoUpdate_failure)

lemma DoPeriodicUpdate_in_order:
  assumes "last_modifying_update (update_data c) \<le> last_update (update_data c)"
    and "last_modifying_update (update_data c) \<le> system_now env"
  shows "last_modifying_update (update_data (fst (DoPeriodicUpdate sn env c)))
           \<le> last_update (update_data (fst (DoPeriodicUpdate sn env c)))"
proof (rule DoPeriodicUpdate_rule)
  fix ty
  show "last_modifying_update (update_data (fst (DoUpdate ty env (c\<lparr>force_next_update_full := False\<rparr>))))
          \<le> last_update (update_data (fst (DoUpdate ty env (c\<lparr>force_next_update_full := False\<rparr>))))"
    by (rule DoUpdate_in_order) (simp_all add: assms)
next
  fix x :: CacheUpdateTrait
  assume "last_modifying_update (update_data x) \<le> last_update (update_data x)"
  then show "last_modifying_update (update_data
                (fst (DumpAsyncIfNeeded kHonorDumpInterval (GetConfig c) x)))
          \<le> last_update (update_data (fst (DumpAsyncIfNeeded kHonorDumpInterval (GetConfig c) x)))"
    by (simp add: DumpAsyncIfNeeded_fields)
qed

lemma Step_in_order:
  assumes k: "last_modifying_update (update_data c) \<le> last_update (update_data c)"
    and clock: "ClockNotBehind ev c"
  shows "last_modifying_update (update_data (Step ev c)) \<le> last_update (update_data (Step ev c))"
proof (cases ev)
  case (StartEvent flags le sn env)
  have "last_modifying_update (update_data (fst (StartPeriodicUpdates flags le sn env c)))
          \<le> last_update (update_data (fst (StartPeriodicUpdates flags le sn env c)))"
  proof (rule StartPeriodicUpdates_rule)
    show "last_modifying_update (update_data c) \<le> last_update (update_data c)" by (rule k)
  next
    show l: "last_modifying_update (update_data (fst (LoadFromDump (GetConfig c) le (EnterStart c))))
          \<le> last_update (update_data (fst (LoadFromDump (GetConfig c) le (EnterStart c))))"
      using LoadFromDump_instants [of "GetConfig c" le "EnterStart c"] k by auto
    assume nr: "\<not> is_running c"
    show "last_modifying_update (update_data (fst (DoPeriodicUpdate sn env
             (fst (LoadFromDump (GetConfig c) le (EnterStart c))))))
          \<le> last_update (update_data (fst (DoPeriodicUpdate sn env
             (fst (LoadFromDump (GetConfig c) le (EnterStart c))))))"
      using clock nr StartEvent
      by (intro DoPeriodicUpdate_in_order l) (simp add: LoadFromDump_EnterStart)
  qed simp_all
  then show ?thesis by (simp add: StartEvent)
next
  case (StopEvent cancel_env)
  then show ?thesis using k by (simp add: StopPeriodicUpdates_instants)
next
  case (TickEvent sn env)
  then show ?thesis using k clock by (simp add: DoPeriodicUpdate_in_order)
next
  case (UpdateEvent ty env)
  then show ?thesis using k clock by (simp add: Update_def Let_def DoUpdate_in_order)
next
  case (DumpSyncDebugEvent env)
  then show ?thesis using k by (simp add: DumpSyncDebug_instants)
next
  case (DumpTaskEvent env)
  then show ?thesis using k by (simp add: RunDumpTask_instants)
next
  case OnCacheModifiedEvent
  then show ?thesis using k by (simp add: OnCacheModified_def)
next
  case (SetConfigEvent new_config)
  then show ?thesis using k by (simp add: SetConfig_instants)
qed

subsection \<open>Updates under the policy \<open>kOnlyFull\<close>\<close>

lemma TickUpdateType_only_full:
  "allowed_update_types (config c) = kOnlyFull \<Longrightarrow> TickUpdateType sn c = kFull"
  by (simp add: TickUpdateType_def)

lemma executed_types_Update:
  "executed_types (calls (fst (Update requested env c))) =
     executed_types (calls c) @
       [if allowed_update_types (config c) = kOnlyFull \<and> requested = kIncremental
        then kFull else requested]"
  by (simp add: Update_def Let_def GetConfig_def executed_types_DoUpdate)

lemma Update_fields:
  "force_next_update_full (fst (Update requested env c)) = force_next_update_full c"
  "config (fst (Update requested env c)) = config c"
  by (simp_all add: Update_def Let_def force_next_update_full_DoUpdate DoUpdate_fields)

lemma DoPeriodicUpdate_only_full:
  assumes "allowed_update_types (config c) = kOnlyFull"
  shows "config (fst (DoPeriodicUpdate sn env c)) = config c
       \<and> executed_types (calls (fst (DoPeriodicUpdate sn env c)))
           = executed_types (calls c) @ replicate 1 kFull"
  using assms
  by (simp add: DoPeriodicUpdate_fields executed_types_DoPeriodicUpdate TickUpdateType_only_full)

lemma Step_only_full:
  assumes p: "allowed_update_types (config c) = kOnlyFull"
    and k: "KeepsPolicy kOnlyFull ev"
  shows "allowed_update_types (config (Step ev c)) = kOnlyFull
       \<and> (\<exists>n. executed_types (calls (Step ev c)) = executed_types (calls c) @ replicate n kFull)"
proof (cases ev)
  case (StartEvent flags le sn env)
  have "allowed_update_types (config (fst (StartPeriodicUpdates flags le sn env c))) = kOnlyFull
      \<and> (\<exists>n. executed_types (calls (fst (StartPeriodicUpdates flags le sn env c)))
             = executed_types (calls c) @ replicate n kFull)"
  proof (rule StartPeriodicUpdates_rule)
    show "allowed_update_types (config c) = kOnlyFull
        \<and> (\<exists>n. executed_types (calls c) = executed_types (calls c) @ replicate n kFull)"
      using p by simp
  next
    show l: "allowed_update_types (config (fst (LoadFromDump (GetConfig c) le (EnterStart c))))
            = kOnlyFull
        \<and> (\<exists>n. executed_types (calls (fst (LoadFromDump (GetConfig c) le (EnterStart c))))
               = executed_types (calls c) @ replicate n kFull)"
      using p by (simp add: LoadFromDump_fields)
    have "allowed_update_types (config (fst (LoadFromDump (GetConfig c) le (EnterStart c))))
            = kOnlyFull"
      using l by simp
    then have "config (fst (DoPeriodicUpdate sn env
                   (fst (LoadFromDump (GetConfig c) le (EnterStart c)))))
                 = config (fst (LoadFromDump (GetConfig c) le (EnterStart c)))
       \<and> executed_types (calls (fst (DoPeriodicUpdate sn env
                   (fst (LoadFromDump (GetConfig c) le (EnterStart c))))))
           = executed_types (calls (fst (LoadFromDump (GetConfig c) le (EnterStart c))))
             @ replicate 1 kFull"
      by (rule DoPeriodicUpdate_only_full)
    then have "allowed_update_types (config (fst (DoPeriodicUpdate sn env
                   (fst (LoadFromDump (GetConfig c) le (EnterStart c)))))) = kOnlyFull
        \<and> executed_types (calls (fst (DoPeriodicUpdate sn env
                   (fst (LoadFromDump (GetConfig c) le (EnterStart c))))))
             = executed_types (calls c) @ replicate 1 kFull"
      using p by (simp add: LoadFromDump_fields)
    then show "allowed_update_types (config (fst (DoPeriodicUpdate sn env
                   (fst (LoadFromDump (GetConfig c) le (EnterStart c)))))) = kOnlyFull
        \<and> (\<exists>n. executed_types (calls (fst (DoPeriodicUpdate sn env
                   (fst (LoadFromDump (GetConfig c) le (EnterStart c))))))
             = executed_types (calls c) @ replicate n kFull)"
      by blast
  qed simp_all
  then show ?thesis by (simp add: StartEvent)
next
  case (StopEvent cancel_env)
  have "executed_types (calls (StopPeriodicUpdates cancel_env c))
          = executed_types (calls c) @ replicate 0 kFull"
    by (simp add: StopPeriodicUpdates_instants)
  then show ?thesis using p unfolding StopEvent
    by (simp only: Step.simps StopPeriodicUpdates_instants) blast
next
  case (TickEvent sn env)
  show ?thesis
  proof (cases "update_task c = None")
    case True
    have st: "Step ev c = c" using True by (simp add: TickEvent)
    have "executed_types (calls c) = executed_types (calls c) @ replicate 0 kFull" by simp
    then show ?thesis unfolding st using p by blast
  next
    case False
    have st: "Step ev c = fst (DoPeriodicUpdate sn env c)" using False by (auto simp add: TickEvent)
    have "allowed_update_types (config (fst (DoPeriodicUpdate sn env c))) = kOnlyFull"
      using DoPeriodicUpdate_only_full [OF p, of sn env] p by simp
    moreover have "executed_types (calls (fst (DoPeriodicUpdate sn env c)))
           = executed_types (calls c) @ replicate 1 kFull"
      using DoPeriodicUpdate_only_full [OF p, of sn env] by simp
    ultimately show ?thesis unfolding st by blast
  qed
next
  case (UpdateEvent requested env)
  have "executed_types (calls (fst (Update requested env c)))
          = executed_types (calls c) @ replicate 1 kFull"
    using p by (cases requested) (simp_all add: executed_types_Update)
  then show ?thesis using p unfolding UpdateEvent
    by (simp only: Step.simps Update_fields) blast
next
  case (DumpSyncDebugEvent env)
  have "executed_types (calls (fst (DumpSyncDebug env c)))
          = executed_types (calls c) @ replicate 0 kFull"
    by (simp add: DumpSyncDebug_instants)
  then show ?thesis using p unfolding DumpSyncDebugEvent
    by (simp only: Step.simps DumpSyncDebug_instants) blast
next
  case (DumpTaskEvent env)
  have "executed_types (calls (RunDumpTask env c))
          = executed_types (calls c) @ replicate 0 kFull"
    by (simp add: RunDumpTask_instants)
  then show ?thesis using p unfolding DumpTaskEvent
    by (simp only: Step.simps RunDumpTask_instants) blast
next
  case OnCacheModifiedEvent
  have "executed_types (calls (OnCacheModified c))
          = executed_types (calls c) @ replicate 0 kFull"
    by (simp add: OnCacheModified_def)
  then show ?thesis using p unfolding OnCacheModifiedEvent
    by (simp add: OnCacheModified_def)
next
  case (SetConfigEvent new_config)
  have "executed_types (calls (SetConfig new_config c))
          = executed_types (calls c) @ replicate 0 kFull"
    by (simp add: SetConfig_instants)
  then show ?thesis using k unfolding SetConfigEvent
    by (simp add: SetConfig_instants)
qed

lemma Run_only_full:
  "allowed_update_types (config c) = kOnlyFull \<Longrightarrow> list_all (KeepsPolicy kOnlyFull) evs \<Longrightarrow>
   \<exists>n. executed_types (calls (Run evs c)) = executed_types (calls c) @ replicate n kFull"
proof (induction evs arbitrary: c)
  case Nil
  have "executed_types (calls c) = executed_types (calls c) @ replicate 0 kFull" by simp
  then show ?case by (simp only: Run.simps) blast
next
  case (Cons ev evs)
  have k: "KeepsPolicy kOnlyFull ev" and ks: "list_all (KeepsPolicy kOnlyFull) evs"
    using Cons.prems(2) by simp_all
  obtain n where s: "allowed_update_types (config (Step ev c)) = kOnlyFull"
    and n: "executed_types (calls (Step ev c)) = executed_types (calls c) @ replicate n kFull"
    using Step_only_full [OF Cons.prems(1) k] by blast
  obtain m where m: "executed_types (calls (Run evs (Step ev c)))
                       = executed_types (calls (Step ev c)) @ replicate m kFull"
    using Cons.IH [OF s ks] by blast
  have "executed_types (calls (Run (ev # evs) c))
          = executed_types (calls c) @ replicate (n + m) kFull"
    by (simp add: m n replicate_add)
  then show ?case by blast
qed

subsection \<open>Evaluating the examples\<close>

lemma Run_append: "Run (evs @ evs') c = Run evs' (Run evs c)"
  by (induction evs arbitrary: c) simp_all

lemmas operation_defs =
  StartPeriodicUpdates_def StartBody_def EnterStart_def LoadFromDump_def ReadLatestDump_def
  GetConfig_def FirstUpdate_def DoPeriodicUpdate_def DoUpdate_def Log_def OnCacheModified_def
  DumpAsyncIfNeeded_def ShouldDump_def GetLastDumpedUpdate_def DumpAsync_def
  StartTasks_def GetPeriodicTaskSettings_def RunDumpTask_def DumpBody_def DoDump_def
  DumpSyncDebug_def Wait_def Update_def Let_def wrap_int64_def

lemmas example_defs =
  Construct_def example_config_def no_dump_on_disk_def dump_on_disk_def update_at_def
  failing_update_at_def dump_succeeds_def

lemma first_start:
  "StartPeriodicUpdates {} no_dump_on_disk 0 (update_at 100 True)
     (Construct example_config True) = (started_cache, None)"
  by (simp add: started_cache_def operation_defs example_defs)

lemma DoPeriodicUpdate_std_exception:
  assumes "snd (DoPeriodicUpdate sn env c) = Some e" and "IsStdException e"
  shows "update_throws env = Some e"
proof (cases "update_throws env")
  case None
  then have "snd (DumpAsyncIfNeeded kHonorDumpInterval (config c)
       (fst (DoUpdate (TickUpdateType sn c) env (c\<lparr>force_next_update_full := False\<rparr>)))) = Some e"
    using assms(1) by (simp add: DoPeriodicUpdate_update_ok)
  then show ?thesis using DumpAsyncIfNeeded_throws_other assms(2) by blast
next
  case (Some e0)
  show ?thesis
  proof (cases "snd (DumpAsyncIfNeeded kHonorDumpInterval (config c)
       (fst (DoUpdate (TickUpdateType sn c) env (c\<lparr>force_next_update_full := False\<rparr>))))")
    case None
    then show ?thesis
      using assms(1) Some snd_DoPeriodicUpdate_throws [OF Some, of sn c]
      by (simp split: if_splits)
  next
    case (Some e')
    then have "\<not> IsStdException e'" by (rule DumpAsyncIfNeeded_throws_other)
    then show ?thesis
      using assms \<open>update_throws env = Some e0\<close> Some
        snd_DoPeriodicUpdate_throws [OF \<open>update_throws env = Some e0\<close>, of sn c]
      by (auto split: if_splits)
  qed
qed

lemma DoPeriodicUpdate_failed_update:
  assumes "update_throws env = Some e"
  shows "last_update (update_data (fst (DoPeriodicUpdate sn env c))) = last_update (update_data c)"
    and "last_modifying_update (update_data (fst (DoPeriodicUpdate sn env c)))
           = last_modifying_update (update_data c)"
  using assms
  by (simp_all add: fst_DoPeriodicUpdate DumpAsyncIfNeeded_fields DoUpdate_failure)

lemma StartTasks_tasks:
  "if periodic_update_enabled c
   then update_task (StartTasks b cfg c) \<noteq> None \<and> cleanup_task (StartTasks b cfg c) \<noteq> None
   else update_task (StartTasks b cfg c) = update_task c
        \<and> cleanup_task (StartTasks b cfg c) = cleanup_task c"
  by (simp add: StartTasks_def Let_def)

lemma first_dump: "RunDumpTask dump_succeeds started_cache = dumped_cache"
  by (simp add: dumped_cache_def started_cache_def operation_defs example_defs)

lemma clock_back_tick:
  "DoPeriodicUpdate 110 (update_at 90 True) dumped_cache = (clock_back_cache, None)"
  by (simp add: clock_back_cache_def dumped_cache_def started_cache_def operation_defs example_defs)

lemma stale_dump_tick:
  "DoPeriodicUpdate 300 (update_at 200 False) clock_back_cache = (stale_dump_cache, None)"
  by (simp add: stale_dump_cache_def clock_back_cache_def dumped_cache_def started_cache_def
        operation_defs example_defs)

lemma bump_tick:
  "DoPeriodicUpdate 300 (update_at 200 False) dumped_cache = (bump_cache, None)"
  by (simp add: bump_cache_def dumped_cache_def started_cache_def operation_defs example_defs)

lemma started_cache_update_task [simp]:
  "update_task started_cache \<noteq> None" "update_task dumped_cache \<noteq> None"
  "update_task clock_back_cache \<noteq> None" "update_task stale_dump_cache \<noteq> None"
  "update_task bump_cache \<noteq> None"
  by (simp_all add: bump_cache_def stale_dump_cache_def clock_back_cache_def dumped_cache_def
        started_cache_def)

lemma stale_dump_done:
  "last_dumped_update (RunDumpTask dump_succeeds stale_dump_cache) = 90"
  "calls (RunDumpTask dump_succeeds stale_dump_cache) = calls stale_dump_cache @ [RegisterNewDump 90]"
  by (simp_all add: stale_dump_cache_def RunDumpTask_def DumpBody_def DoDump_def Log_def Let_def
        dump_succeeds_def)

lemma bump_done:
  "last_dumped_update (RunDumpTask dump_succeeds bump_cache) = 100"
  "calls (RunDumpTask dump_succeeds bump_cache) = calls bump_cache @ [BumpDumpTime 100 100]"
  "last_update (update_data (RunDumpTask dump_succeeds bump_cache)) = 200"
  by (simp_all add: bump_cache_def RunDumpTask_def DumpBody_def DoDump_def Log_def Let_def
        dump_succeeds_def)

lemma Run_first_dump_run: "Run first_dump_run (Construct example_config True) = dumped_cache"
  by (simp add: first_dump_run_def first_start first_dump)

lemma Run_clock_back_run: "Run clock_back_run (Construct example_config True) = clock_back_cache"
  by (simp add: clock_back_run_def Run_append Run_first_dump_run clock_back_tick)

lemma Run_stale_dump_run:
  "Run stale_dump_run (Construct example_config True)
     = RunDumpTask dump_succeeds stale_dump_cache"
  by (simp add: stale_dump_run_def Run_append Run_clock_back_run stale_dump_tick)

lemma Run_bump_run:
  "Run bump_run (Construct example_config True) = RunDumpTask dump_succeeds bump_cache"
  by (simp add: bump_run_def Run_append Run_first_dump_run bump_tick)

lemma max_interval_set: "SetConfig max_interval_config dumped_cache = max_interval_cache"
  by (simp add: SetConfig_def GetPeriodicTaskSettings_def Let_def max_interval_cache_def
        max_interval_config_def dumped_cache_def started_cache_def example_defs)

lemma far_future_start:
  "StartPeriodicUpdates {kNoFirstUpdate} (dump_on_disk 2305843009213693952) 0
     (update_at 100 True) (Construct example_config True) = (far_future_cache, None)"
  by (simp add: far_future_cache_def operation_defs example_defs)

lemma early_steady_start:
  "StartPeriodicUpdates {} no_dump_on_disk 0 early_steady_update
     (Construct example_config True) = (early_steady_cache, None)"
  by (simp add: early_steady_cache_def started_cache_def early_steady_update_def
        operation_defs example_defs)

subsection \<open>The claims\<close>

text \<open>
  C1 (amended). Every periodic tick consumes \<open>force_next_update_full\<close>: the flag is
  clear afterwards, whatever the update does. On every tick at which no conversion of
  the decision leaves the signed 64-bit range (\<open>last_update\<close> in nanoseconds, the
  steady-clock time elapsed since \<open>last_full_update\<close>, and \<open>full_update_interval\<close> in
  nanoseconds), the user update is run with the type of the claim: \<open>kFull\<close> when
  \<open>force_next_update_full\<close> was set or \<open>last_update\<close> is the zero instant; otherwise
  \<open>kFull\<close> under \<open>kOnlyFull\<close>, \<open>kIncremental\<close> under \<open>kOnlyIncremental\<close>, and under
  \<open>kFullAndIncremental\<close> \<open>kIncremental\<close> exactly when the time elapsed since
  \<open>last_full_update\<close> is less than \<open>full_update_interval\<close>, else \<open>kFull\<close>.
\<close>

theorem C1_periodic_update_type:
  "\<not> force_next_update_full (fst (DoPeriodicUpdate steady_now_decision env c))
   \<and> (fits_int64 (last_update (update_data c) * 1000)
      \<and> fits_int64 (steady_now_decision - last_full_update (update_data c))
      \<and> fits_int64 (full_update_interval (config c) * 1000000) \<longrightarrow>
      executed_types (calls (fst (DoPeriodicUpdate steady_now_decision env c)))
        = executed_types (calls c) @
          [if force_next_update_full c \<or> last_update (update_data c) = 0 then kFull
           else (case allowed_update_types (config c) of
                   kOnlyFull \<Rightarrow> kFull
                 | kOnlyIncremental \<Rightarrow> kIncremental
                 | kFullAndIncremental \<Rightarrow>
                     if steady_now_decision - last_full_update (update_data c)
                          < full_update_interval (config c) * 1000000
                     then kIncremental else kFull)])"
proof (intro conjI impI)
  show "\<not> force_next_update_full (fst (DoPeriodicUpdate steady_now_decision env c))"
    by (simp add: force_next_update_full_DoPeriodicUpdate)
next
  assume "fits_int64 (last_update (update_data c) * 1000)
      \<and> fits_int64 (steady_now_decision - last_full_update (update_data c))
      \<and> fits_int64 (full_update_interval (config c) * 1000000)"
  then have "wrap_int64 (last_update (update_data c) * 1000) = last_update (update_data c) * 1000"
    and "wrap_int64 (steady_now_decision - last_full_update (update_data c))
           = steady_now_decision - last_full_update (update_data c)"
    and "wrap_int64 (full_update_interval (config c) * 1000000)
           = full_update_interval (config c) * 1000000"
    by (simp_all add: wrap_int64_fits)
  then show "executed_types (calls (fst (DoPeriodicUpdate steady_now_decision env c)))
        = executed_types (calls c) @
          [if force_next_update_full c \<or> last_update (update_data c) = 0 then kFull
           else (case allowed_update_types (config c) of
                   kOnlyFull \<Rightarrow> kFull
                 | kOnlyIncremental \<Rightarrow> kIncremental
                 | kFullAndIncremental \<Rightarrow>
                     if steady_now_decision - last_full_update (update_data c)
                          < full_update_interval (config c) * 1000000
                     then kIncremental else kFull)]"
    by (simp add: executed_types_DoPeriodicUpdate TickUpdateType_def)
qed

theorem C1_periodic_update_type_witness:
  "executed_types (calls (fst (DoPeriodicUpdate 700 (update_at 1000 True)
       (Construct example_config True)))) = [kFull]
   \<and> \<not> force_next_update_full (fst (DoPeriodicUpdate 700 (update_at 1000 True)
       (Construct example_config True)))
   \<and> executed_types (calls (fst (DoPeriodicUpdate 300 (update_at 300 False) dumped_cache)))
       = [kFull, kIncremental]
   \<and> executed_types (calls (fst (DoPeriodicUpdate 700000100 (update_at 700000100 False)
         dumped_cache)))
       = [kFull, kFull]"
  using C1_periodic_update_type [of 700 "update_at 1000 True" "Construct example_config True"]
    C1_periodic_update_type [of 300 "update_at 300 False" dumped_cache]
    C1_periodic_update_type [of 700000100 "update_at 700000100 False" dumped_cache]
  by (simp add: Construct_def example_config_def dumped_cache_def started_cache_def
        fits_int64_def)

text \<open>
  The claim as it was stated fails where a conversion wraps around; in each of the
  three ticks below the flag is clear, \<open>last_update\<close> is not the zero instant and the
  policy is \<open>kFullAndIncremental\<close>.

  \<^item> \<^verbatim>\<open>SetConfig\<close> installs \<open>full_update_interval = milliseconds::max()\<close>, whose count
    of nanoseconds wraps to \<open>- 1000000\<close>: 200 nanoseconds after the last full update
    the tick runs a full update, although the time elapsed is less than the interval.
  \<^item> The bootstrap loads a dump stamped \<open>2 ^ 61\<close> microseconds, whose count of
    nanoseconds wraps to \<open>0\<close>, the zero instant of line 242: the tick runs a full
    update, although the time elapsed since the last full update is less than the
    interval.
  \<^item> The first update reads the steady clock 1000 nanoseconds before its epoch and the
    tick reads it at its last instant: the time elapsed wraps to a negative count, and
    the tick runs an incremental update although the interval has passed.
\<close>

theorem C1_periodic_update_type_counterexample:
  "max_interval_cache = SetConfig max_interval_config dumped_cache
   \<and> full_update_interval max_interval_config = 9223372036854775807
   \<and> executed_types (calls (fst (DoPeriodicUpdate 300 (update_at 300 False) max_interval_cache)))
       = executed_types (calls max_interval_cache) @ [kFull]
   \<and> \<not> force_next_update_full max_interval_cache
   \<and> last_update (update_data max_interval_cache) \<noteq> 0
   \<and> allowed_update_types (config max_interval_cache) = kFullAndIncremental
   \<and> 300 - last_full_update (update_data max_interval_cache)
        < full_update_interval (config max_interval_cache) * 1000000
   \<and> far_future_cache = fst (StartPeriodicUpdates {kNoFirstUpdate}
        (dump_on_disk 2305843009213693952) 0 (update_at 100 True)
        (Construct example_config True))
   \<and> executed_types (calls (fst (DoPeriodicUpdate 300 (update_at 300 False) far_future_cache)))
       = executed_types (calls far_future_cache) @ [kFull]
   \<and> \<not> force_next_update_full far_future_cache
   \<and> last_update (update_data far_future_cache) \<noteq> 0
   \<and> allowed_update_types (config far_future_cache) = kFullAndIncremental
   \<and> 300 - last_full_update (update_data far_future_cache)
        < full_update_interval (config far_future_cache) * 1000000
   \<and> early_steady_cache = fst (StartPeriodicUpdates {} no_dump_on_disk 0 early_steady_update
        (Construct example_config True))
   \<and> executed_types (calls (fst (DoPeriodicUpdate 9223372036854775807 last_steady_update
         early_steady_cache)))
       = executed_types (calls early_steady_cache) @ [kIncremental]
   \<and> \<not> force_next_update_full early_steady_cache
   \<and> last_update (update_data early_steady_cache) \<noteq> 0
   \<and> allowed_update_types (config early_steady_cache) = kFullAndIncremental
   \<and> full_update_interval (config early_steady_cache) * 1000000
        \<le> 9223372036854775807 - last_full_update (update_data early_steady_cache)"
  by (simp add: executed_types_DoPeriodicUpdate TickUpdateType_def max_interval_set
        far_future_start early_steady_start)
     (simp add: max_interval_cache_def max_interval_config_def far_future_cache_def
        early_steady_cache_def dumped_cache_def started_cache_def Construct_def
        example_config_def wrap_int64_def)




text \<open>
  C3 (amended). If the synchronous first update of \<^verbatim>\<open>StartPeriodicUpdates\<close> throws an
  exception derived from \<^verbatim>\<open>std::exception\<close>, then: when a dump was loaded and
  \<open>first_update_mode\<close> is not \<open>kRequired\<close>, the bootstrap proceeds with the contents
  of the dump (no exception, \<open>is_running\<close> stays set, the instants are those of the
  dump, the periodic tasks are started if periodic updates are enabled); else when
  \<open>allow_first_update_failure\<close> is set, it proceeds in the same way; else
  \<open>is_running\<close> is reset to false, no periodic task is started, and the exception
  leaves \<^verbatim>\<open>StartPeriodicUpdates\<close>. An exception of any other type always takes the
  last of the three ways.
\<close>

theorem C3_first_update_failure:
  assumes nr: "\<not> is_running c"
    and load: "LoadFromDump (config c) load_env (EnterStart c) = (cL, Inr dump_loaded)"
    and first: "\<not> ((dump_loaded \<and> first_update_mode (config c) = kSkip)
                 \<or> (kNoFirstUpdate \<in> flags \<and> periodic_update_enabled c))"
    and throws: "DoPeriodicUpdate sn env cL = (cU, Some e)"
  shows
    "let r = StartPeriodicUpdates flags load_env sn env c;
         proceeds =
           (snd r = None \<and> is_running (fst r)
            \<and> last_update (update_data (fst r)) = last_update (update_data cL)
            \<and> last_modifying_update (update_data (fst r)) = last_modifying_update (update_data cL)
            \<and> (if periodic_update_enabled c
                then update_task (fst r) \<noteq> None \<and> cleanup_task (fst r) \<noteq> None
                else update_task (fst r) = update_task c
                     \<and> cleanup_task (fst r) = cleanup_task c));
         propagates =
           (snd r = Some e \<and> \<not> is_running (fst r)
            \<and> update_task (fst r) = update_task c \<and> cleanup_task (fst r) = cleanup_task c)
     in if IsStdException e \<and> dump_loaded \<and> first_update_mode (config c) \<noteq> kRequired
        then proceeds
        else if IsStdException e \<and> allow_first_update_failure (static_config c)
        then proceeds
        else propagates"
proof -
  have L: "LoadFromDump (GetConfig c) load_env (EnterStart c) = (cL, Inr dump_loaded)"
    using load by (simp add: GetConfig_def)
  have cL: "cL = fst (LoadFromDump (config c) load_env (EnterStart c))"
    using load by simp
  have cU: "cU = fst (DoPeriodicUpdate sn env cL)"
    using throws by simp
  have peL: "periodic_update_enabled cL = periodic_update_enabled c"
    unfolding cL by (simp add: LoadFromDump_fields)
  have yes: "(\<not> dump_loaded \<or> first_update_mode (GetConfig c) \<noteq> kSkip) \<and>
       (\<not> (kNoFirstUpdate \<in> flags) \<or> \<not> periodic_update_enabled cL)"
    using first peL by (auto simp add: GetConfig_def)
  have frames:
    "static_config cU = static_config c" "periodic_update_enabled cU = periodic_update_enabled c"
    "update_task cU = update_task c" "cleanup_task cU = cleanup_task c"
    unfolding cU cL by (simp_all add: DoPeriodicUpdate_fields LoadFromDump_fields)
  have runU: "is_running cU"
    unfolding cU cL by (simp add: DoPeriodicUpdate_fields LoadFromDump_fields)
  show ?thesis
  proof (cases "IsStdException e")
    case other: False
    have "FirstUpdate dump_loaded (GetConfig c) sn env cL = (cU, Some e)"
      using throws other by (simp add: FirstUpdate_def)
    then have "StartPeriodicUpdates flags load_env sn env c = (cU\<lparr>is_running := False\<rparr>, Some e)"
      using StartPeriodicUpdates_first_update [OF nr L yes] by simp
    then show ?thesis using other frames by (simp add: Let_def)
  next
    case std: True
    have thr: "update_throws env = Some e"
      using DoPeriodicUpdate_std_exception [of sn env cL e] throws std by simp
    have kept: "last_update (update_data cU) = last_update (update_data cL)"
      "last_modifying_update (update_data cU) = last_modifying_update (update_data cL)"
      unfolding cU using DoPeriodicUpdate_failed_update [OF thr] by simp_all
    show ?thesis
    proof (cases "(dump_loaded \<and> first_update_mode (config c) \<noteq> kRequired)
                  \<or> allow_first_update_failure (static_config c)")
      case True
      then have "FirstUpdate dump_loaded (GetConfig c) sn env cL = (cU, None)"
        using throws std frames by (auto simp add: FirstUpdate_def GetConfig_def)
      then have "StartPeriodicUpdates flags load_env sn env c
                   = (StartTasks dump_loaded (GetConfig c) cU, None)"
        using StartPeriodicUpdates_first_update [OF nr L yes] by simp
      then show ?thesis
        using True std frames runU kept StartTasks_tasks [of cU dump_loaded "GetConfig c"]
        by (auto simp add: Let_def)
    next
      case False
      then have "FirstUpdate dump_loaded (GetConfig c) sn env cL = (cU, Some e)"
        using throws std frames by (auto simp add: FirstUpdate_def GetConfig_def)
      then have "StartPeriodicUpdates flags load_env sn env c
                   = (cU\<lparr>is_running := False\<rparr>, Some e)"
        using StartPeriodicUpdates_first_update [OF nr L yes] by simp
      then show ?thesis using False std frames by (auto simp add: Let_def)
    qed
  qed
qed

theorem C3_first_update_failure_witness:
  "snd (StartPeriodicUpdates {} (dump_on_disk 50) 0 (failing_update_at 100 (StdException 7))
          (Construct example_config True)) = None
   \<and> is_running (fst (StartPeriodicUpdates {} (dump_on_disk 50) 0
          (failing_update_at 100 (StdException 7)) (Construct example_config True)))
   \<and> last_update (update_data (fst (StartPeriodicUpdates {} (dump_on_disk 50) 0
          (failing_update_at 100 (StdException 7)) (Construct example_config True)))) = 50
   \<and> update_task (fst (StartPeriodicUpdates {} (dump_on_disk 50) 0
          (failing_update_at 100 (StdException 7)) (Construct example_config True))) \<noteq> None"
proof -
  define c where "c = Construct example_config True"
  define cL where "cL = fst (LoadFromDump (config c) (dump_on_disk 50) (EnterStart c))"
  define cU where "cU = fst (DoPeriodicUpdate 0 (failing_update_at 100 (StdException 7)) cL)"
  have nr: "\<not> is_running c" by (simp add: c_def Construct_def)
  have load: "LoadFromDump (config c) (dump_on_disk 50) (EnterStart c) = (cL, Inr True)"
    unfolding cL_def
    by (simp add: c_def LoadFromDump_def ReadLatestDump_def example_defs)
  have first: "\<not> ((True \<and> first_update_mode (config c) = kSkip)
                 \<or> (kNoFirstUpdate \<in> ({} :: Flag set) \<and> periodic_update_enabled c))"
    by (simp add: c_def example_defs)
  have "snd (DoPeriodicUpdate 0 (failing_update_at 100 (StdException 7)) cL)
          = Some (StdException 7)"
    by (rule DoPeriodicUpdate_rethrows)
       (simp_all add: failing_update_at_def cL_def LoadFromDump_fields c_def Construct_def)
  then have throws: "DoPeriodicUpdate 0 (failing_update_at 100 (StdException 7)) cL
                       = (cU, Some (StdException 7))"
    unfolding cU_def by (simp add: prod_eq_iff)
  have lu: "last_update (update_data cL) = 50"
    unfolding cL_def by (simp add: c_def LoadFromDump_def ReadLatestDump_def example_defs EnterStart_def)
  show ?thesis
    using C3_first_update_failure [OF nr load first throws] lu
    by (simp add: Let_def c_def [symmetric]) (simp add: c_def example_defs)
qed

text \<open>
  The claim as it was stated fails for a first update that throws an object that is not
  a \<^verbatim>\<open>std::exception\<close>: the inner handler is \<^verbatim>\<open>catch (const std::exception&)\<close>, so
  with a dump loaded and mode \<open>kBestEffort\<close> the bootstrap does not proceed; the
  exception goes through \<^verbatim>\<open>catch (...)\<close> and leaves \<^verbatim>\<open>StartPeriodicUpdates\<close>.
\<close>

theorem C3_first_update_failure_counterexample:
  "update_throws (failing_update_at 100 (OtherException 7)) = Some (OtherException 7)
   \<and> first_update_mode example_config \<noteq> kRequired
   \<and> dump_is_loaded (fst (StartPeriodicUpdates {} (dump_on_disk 50) 0
          (failing_update_at 100 (OtherException 7)) (Construct example_config True)))
   \<and> snd (StartPeriodicUpdates {} (dump_on_disk 50) 0 (failing_update_at 100 (OtherException 7))
          (Construct example_config True)) = Some (OtherException 7)
   \<and> \<not> is_running (fst (StartPeriodicUpdates {} (dump_on_disk 50) 0
          (failing_update_at 100 (OtherException 7)) (Construct example_config True)))
   \<and> update_task (fst (StartPeriodicUpdates {} (dump_on_disk 50) 0
          (failing_update_at 100 (OtherException 7)) (Construct example_config True))) = None"
  by (simp add: operation_defs example_defs)

text \<open>
  C4 (amended). Whenever \<open>last_update - min_dump_interval\<close>, taken in microseconds,
  fits the signed 64-bit count of a \<^verbatim>\<open>dump::TimePoint\<close> (which matters to the type
  \<open>kHonorDumpInterval\<close> only), \<^verbatim>\<open>ShouldDump(type, update, config)\<close> returns false
  exactly when dumps are disabled, or \<open>last_update\<close> is the zero instant, or the type
  is \<open>kHonorDumpInterval\<close> and \<open>last_dumped_update > last_update - min_dump_interval\<close>,
  or a prior dump task is still live (valid and not finished); in every other case it
  returns true.
\<close>

theorem C4_ShouldDump_decision:
  assumes "ty = kHonorDumpInterval \<longrightarrow>
             fits_int64 (last_update upd - min_dump_interval cfg * 1000)"
  shows "(\<not> ShouldDump ty upd cfg c) =
     (\<not> dumps_enabled cfg
      \<or> last_update upd = 0
      \<or> (ty = kHonorDumpInterval \<and>
           last_dumped_update c > last_update upd - min_dump_interval cfg * 1000)
      \<or> (IsValid (dump_task upd) \<and> \<not> IsFinished (dump_task upd)))"
  using assms
  by (auto simp add: ShouldDump_def GetLastDumpedUpdate_def wrap_int64_diff_right
        wrap_int64_fits)

theorem C4_ShouldDump_decision_witness:
  "ShouldDump kForced
     \<lparr> last_update = 100, last_modifying_update = 100, last_full_update = 7,
       dump_task = Finished None \<rparr>
     example_config (Construct example_config True)
   \<and> \<not> ShouldDump kHonorDumpInterval
     \<lparr> last_update = 5, last_modifying_update = 5, last_full_update = 7,
       dump_task = Invalid \<rparr>
     one_ms_dump_interval_config (Construct example_config True)
   \<and> ShouldDump kHonorDumpInterval
     \<lparr> last_update = 2000, last_modifying_update = 5, last_full_update = 7,
       dump_task = Invalid \<rparr>
     one_ms_dump_interval_config (Construct example_config True)"
  using C4_ShouldDump_decision [of kForced
      "\<lparr> last_update = 100, last_modifying_update = 100, last_full_update = 7,
         dump_task = Finished None \<rparr>"
      example_config "Construct example_config True"]
    C4_ShouldDump_decision [of kHonorDumpInterval
      "\<lparr> last_update = 5, last_modifying_update = 5, last_full_update = 7,
         dump_task = Invalid \<rparr>"
      one_ms_dump_interval_config "Construct example_config True"]
    C4_ShouldDump_decision [of kHonorDumpInterval
      "\<lparr> last_update = 2000, last_modifying_update = 5, last_full_update = 7,
         dump_task = Invalid \<rparr>"
      one_ms_dump_interval_config "Construct example_config True"]
  by (simp add: example_config_def one_ms_dump_interval_config_def Construct_def fits_int64_def)

text \<open>
  The claim as it was stated fails where the subtraction wraps around. With
  \<open>min_dump_interval\<close> at \<^verbatim>\<open>milliseconds::max()\<close> its count of microseconds wraps to
  \<open>- 1000\<close>, so line 333 compares \<open>last_dumped_update\<close> with \<open>last_update + 1000\<close>:
  after a dump of instant 100 and with no dump task live, \<^verbatim>\<open>ShouldDump\<close> returns
  true for \<open>kHonorDumpInterval\<close>, although \<open>last_dumped_update\<close> is later than
  \<open>last_update - min_dump_interval\<close>.
\<close>

theorem C4_ShouldDump_decision_counterexample:
  "ShouldDump kHonorDumpInterval (update_data dumped_cache) max_dump_interval_config dumped_cache
   \<and> last_dumped_update dumped_cache
       > last_update (update_data dumped_cache)
           - min_dump_interval max_dump_interval_config * 1000
   \<and> last_dumped_update dumped_cache = 100
   \<and> last_update (update_data dumped_cache) = 100
   \<and> min_dump_interval max_dump_interval_config = 9223372036854775807"
  by (simp add: ShouldDump_def GetLastDumpedUpdate_def max_dump_interval_config_def
        example_config_def dumped_cache_def started_cache_def Construct_def wrap_int64_def)

text \<open>
  C5. The claim: when a dump is due and \<open>last_dumped_update\<close> equals
  \<open>last_modifying_update\<close> the engine schedules a \<open>kBumpTime\<close> rename and otherwise a
  \<open>kNewDump\<close>; after a successful dump reflecting \<open>T_prev\<close> and a successful update at
  \<open>T_curr\<close> with no \<^verbatim>\<open>OnCacheModified\<close> call, the rename is invoked with
  \<open>old = T_prev\<close> and \<open>new = T_curr\<close>, and on success \<open>last_dumped_update\<close> becomes
  \<open>T_curr\<close>. The code at \<open>T_prev = 100\<close>, \<open>T_curr = 200\<close>: the rename is scheduled,
  but \<^verbatim>\<open>DumpAsync\<close> captures \<open>new_update_time = update.last_modifying_update\<close>, which
  is \<open>T_prev\<close>; the rename is invoked with \<open>(100, 100)\<close> and \<open>last_dumped_update\<close>
  stays 100 while \<open>last_update\<close> is 200.
\<close>

theorem C5_bump_time_renames_in_place:
  "last_dumped_update (Run first_dump_run (Construct example_config True)) = 100
   \<and> last_modifying_update (update_data (Run first_dump_run (Construct example_config True))) = 100
   \<and> spawned (calls (Run bump_run (Construct example_config True)))
        = [SpawnDump kNewDump 0 100, SpawnDump kBumpTime 100 100]
   \<and> calls (Run bump_run (Construct example_config True))
        = calls (Run first_dump_run (Construct example_config True))
          @ [DomainUpdate kIncremental 100 200, DumpEngine kHonorDumpInterval,
             SpawnDump kBumpTime 100 100, BumpDumpTime 100 100]
   \<and> last_update (update_data (Run bump_run (Construct example_config True))) = 200
   \<and> last_dumped_update (Run bump_run (Construct example_config True)) = 100"
  by (simp add: Run_first_dump_run Run_bump_run bump_done)
     (simp add: bump_cache_def dumped_cache_def)

text \<open>
  C6. The claim: \<open>last_dumped_update\<close> is updated only by monotonic-max writes; after
  every successful dump of instant \<open>T\<close> it satisfies \<open>last_dumped_update \<ge> T\<close>, it is
  non-decreasing over every execution, and it never exceeds \<open>last_modifying_update\<close>
  when no dump task is in flight. The code: \<^verbatim>\<open>LoadFromDump\<close> writes it with
  \<^verbatim>\<open>utils::AtomicMax\<close> (line 473), but the closure of \<^verbatim>\<open>DumpAsync\<close> stores
  \<^verbatim>\<open>last_dumped_update_ = new_update_time\<close> (line 417), whatever the value it
  replaces. After a dump of instant 100, a tick whose update modifies the cache at the
  system clock reading 90 leaves \<open>last_dumped_update\<close> (100) later than
  \<open>last_modifying_update\<close> (90) with no dump task in flight; the dump scheduled by the
  next tick is a new dump of instant 90, and when it succeeds the plain store lowers
  \<open>last_dumped_update\<close> from 100 to 90, where a monotonic-max write would have kept
  100.
\<close>

theorem C6_last_dumped_update_decreases:
  "last_dumped_update (Run first_dump_run (Construct example_config True)) = 100
   \<and> stale_dump_run = first_dump_run @ [TickEvent 110 (update_at 90 True),
        TickEvent 300 (update_at 200 False), DumpTaskEvent dump_succeeds]
   \<and> last_dumped_update (Run clock_back_run (Construct example_config True)) = 100
   \<and> last_modifying_update (update_data (Run clock_back_run (Construct example_config True))) = 90
   \<and> IsFinished (dump_task (update_data (Run clock_back_run (Construct example_config True))))
   \<and> spawned (calls (Run stale_dump_run (Construct example_config True)))
        = [SpawnDump kNewDump 0 100, SpawnDump kNewDump 100 90]
   \<and> last_dumped_update (Run stale_dump_run (Construct example_config True)) = 90"
  by (simp add: Run_first_dump_run Run_stale_dump_run Run_clock_back_run stale_dump_done)
     (simp add: stale_dump_run_def clock_back_run_def stale_dump_cache_def clock_back_cache_def
        dumped_cache_def spawned_def)

text \<open>
  C7 (amended). On every periodic tick on which the user update returns or throws an
  exception derived from \<^verbatim>\<open>std::exception\<close>, the driver calls the dump engine
  once, with policy \<open>kHonorDumpInterval\<close>, after the update; if the update threw such
  an exception, the same exception leaves \<^verbatim>\<open>DoPeriodicUpdate\<close> after the dump call
  (unless the dump call itself throws: it rethrows an exception of another type that
  the previous dump task ended with). An exception of any other type thrown by the
  update leaves \<^verbatim>\<open>DoPeriodicUpdate\<close> at once, with no call of the dump engine.
\<close>

theorem C7_dump_engine_after_update:
  "driver_steps (calls (fst (DoPeriodicUpdate sn env c))) =
     driver_steps (calls c) @
       DomainUpdate (TickUpdateType sn c) (last_update (update_data c)) (system_now env) #
       (case update_throws env of
          None \<Rightarrow> [DumpEngine kHonorDumpInterval]
        | Some e \<Rightarrow> if IsStdException e then [DumpEngine kHonorDumpInterval] else [])
   \<and> (update_throws env = Some e \<longrightarrow> IsStdException e \<longrightarrow>
        (\<forall>n. Get (dump_task (update_data c)) \<noteq> Some (OtherException n)) \<longrightarrow>
        snd (DoPeriodicUpdate sn env c) = Some e)
   \<and> (update_throws env = Some e \<longrightarrow> \<not> IsStdException e \<longrightarrow>
        snd (DoPeriodicUpdate sn env c) = Some e)"
  using driver_steps_DoPeriodicUpdate [of sn env c] DoPeriodicUpdate_rethrows [of env e c sn]
    snd_DoPeriodicUpdate_throws [of env e sn c]
  by simp

theorem C7_dump_engine_after_update_witness:
  "driver_steps (calls (fst (DoPeriodicUpdate 0 (failing_update_at 100 (StdException 7))
       (Construct example_config True))))
     = [DomainUpdate kFull 0 100, DumpEngine kHonorDumpInterval]
   \<and> snd (DoPeriodicUpdate 0 (failing_update_at 100 (StdException 7))
       (Construct example_config True)) = Some (StdException 7)"
  using C7_dump_engine_after_update [of 0 "failing_update_at 100 (StdException 7)"
      "Construct example_config True" "StdException 7"]
  by (simp add: failing_update_at_def Construct_def TickUpdateType_def wrap_int64_def)

text \<open>
  The claim as it was stated fails for a user update that throws an object that is not
  a \<^verbatim>\<open>std::exception\<close>: the handler of \<^verbatim>\<open>DoPeriodicUpdate\<close> is
  \<^verbatim>\<open>catch (const std::exception&)\<close>, and the dump engine is not called.
\<close>

theorem C7_dump_engine_after_update_counterexample:
  "update_throws (failing_update_at 100 (OtherException 7)) = Some (OtherException 7)
   \<and> DumpEngine kHonorDumpInterval \<notin> set (calls (fst (DoPeriodicUpdate 0
        (failing_update_at 100 (OtherException 7)) (Construct example_config True))))
   \<and> snd (DoPeriodicUpdate 0 (failing_update_at 100 (OtherException 7))
        (Construct example_config True)) = Some (OtherException 7)"
  by (simp add: fst_DoPeriodicUpdate snd_DoPeriodicUpdate_throws DoUpdate_failure
        failing_update_at_def Construct_def)

text \<open>
  C8 (amended). A successful update sets \<open>last_update\<close> to \<open>system_now\<close> and sets
  \<open>last_modifying_update\<close> to the same instant exactly when \<open>cache_modified\<close> was
  exchanged from true (else leaves it), a failed update changes neither, and a dump
  load sets both to the timestamp of the dump. The invariant
  \<open>last_modifying_update \<le> last_update\<close> is kept by every operation for which the
  system clock reading of its update is not earlier than \<open>last_modifying_update\<close>
  (\<open>ClockNotBehind\<close>); operations that run no update keep it unconditionally.
\<close>

theorem C8_update_instants:
  "(update_throws env = None \<longrightarrow>
      last_update (update_data (fst (DoUpdate ty env c))) = system_now env
    \<and> last_modifying_update (update_data (fst (DoUpdate ty env c))) =
        (if cache_modified c \<or> calls_OnCacheModified env then system_now env
         else last_modifying_update (update_data c))
    \<and> \<not> cache_modified (fst (DoUpdate ty env c)))
   \<and> (update_throws env \<noteq> None \<longrightarrow>
      last_update (update_data (fst (DoUpdate ty env c))) = last_update (update_data c)
    \<and> last_modifying_update (update_data (fst (DoUpdate ty env c)))
        = last_modifying_update (update_data c))
   \<and> (snd (LoadFromDump cfg load_env c) = Inr True \<longrightarrow>
      (\<exists>T. ReadLatestDump load_env = Inr (Some T)
         \<and> last_update (update_data (fst (LoadFromDump cfg load_env c))) = T
         \<and> last_modifying_update (update_data (fst (LoadFromDump cfg load_env c))) = T))
   \<and> (last_modifying_update (update_data c) \<le> last_update (update_data c) \<longrightarrow>
      ClockNotBehind ev c \<longrightarrow>
      last_modifying_update (update_data (Step ev c)) \<le> last_update (update_data (Step ev c)))"
proof -
  have load: "snd (LoadFromDump cfg load_env c) = Inr True \<longrightarrow>
      (\<exists>T. ReadLatestDump load_env = Inr (Some T)
         \<and> last_update (update_data (fst (LoadFromDump cfg load_env c))) = T
         \<and> last_modifying_update (update_data (fst (LoadFromDump cfg load_env c))) = T)"
    using LoadFromDump_loaded [of cfg load_env c] by blast
  show ?thesis
    using load Step_in_order [of c ev]
    by (cases "update_throws env") (simp_all add: DoUpdate_success DoUpdate_failure)
qed

theorem C8_update_instants_witness:
  "last_update (update_data (fst (DoUpdate kFull (update_at 100 True)
       (Construct example_config True)))) = 100
   \<and> last_modifying_update (update_data (fst (DoUpdate kFull (update_at 100 True)
       (Construct example_config True)))) = 100
   \<and> last_update (update_data (fst (DoUpdate kFull (failing_update_at 100 (StdException 7))
       (Construct example_config True)))) = 0
   \<and> last_update (update_data (fst (LoadFromDump example_config (dump_on_disk 50)
       (Construct example_config True)))) = 50
   \<and> last_modifying_update (update_data (fst (LoadFromDump example_config (dump_on_disk 50)
       (Construct example_config True)))) = 50
   \<and> last_modifying_update (update_data (Step (UpdateEvent kFull (update_at 100 False))
         (Construct example_config True)))
       \<le> last_update (update_data (Step (UpdateEvent kFull (update_at 100 False))
         (Construct example_config True)))"
  using C8_update_instants [of "update_at 100 True" kFull "Construct example_config True"
      example_config "dump_on_disk 50" "UpdateEvent kFull (update_at 100 False)"]
    C8_update_instants [of "failing_update_at 100 (StdException 7)" kFull
      "Construct example_config True" example_config "dump_on_disk 50"
      "UpdateEvent kFull (update_at 100 False)"]
  by (simp add: example_defs LoadFromDump_def ReadLatestDump_def)

text \<open>
  The claim as it was stated fails when the system clock steps back: a successful
  update that does not modify the cache, at a clock reading earlier than
  \<open>last_modifying_update\<close>, leaves \<open>last_update\<close> behind it.
\<close>

theorem C8_update_instants_counterexample:
  "last_modifying_update (update_data (Run [UpdateEvent kFull (update_at 100 True),
       UpdateEvent kFull (update_at 90 False)] (Construct example_config True))) = 100
   \<and> last_update (update_data (Run [UpdateEvent kFull (update_at 100 True),
       UpdateEvent kFull (update_at 90 False)] (Construct example_config True))) = 90
   \<and> \<not> last_modifying_update (update_data (Run [UpdateEvent kFull (update_at 100 True),
       UpdateEvent kFull (update_at 90 False)] (Construct example_config True)))
       \<le> last_update (update_data (Run [UpdateEvent kFull (update_at 100 True),
       UpdateEvent kFull (update_at 90 False)] (Construct example_config True)))"
  by (simp add: Update_def Let_def GetConfig_def DoUpdate_success update_at_def)

text \<open>
  C9. For every call of the public \<^verbatim>\<open>Update(requested)\<close>, the user update runs with
  \<open>kFull\<close> when the policy is \<open>kOnlyFull\<close> and \<open>kIncremental\<close> was requested, and
  with the requested type otherwise; no type decision is made (the type does not depend
  on \<open>last_update\<close> or \<open>force_next_update_full\<close>, and the flag is not consumed).
  Hence, while the policy is \<open>kOnlyFull\<close> (no \<^verbatim>\<open>SetConfig\<close> installs another), every
  update that any operation executes has type \<open>kFull\<close>: none is \<open>kIncremental\<close>,
  whatever callers request.
\<close>

theorem C9_only_full_policy:
  "executed_types (calls (fst (Update requested env c))) =
     executed_types (calls c) @
       [if allowed_update_types (config c) = kOnlyFull \<and> requested = kIncremental
        then kFull else requested]
   \<and> force_next_update_full (fst (Update requested env c)) = force_next_update_full c
   \<and> (allowed_update_types (config c) = kOnlyFull \<longrightarrow>
        list_all (KeepsPolicy kOnlyFull) evs \<longrightarrow>
        (\<exists>n. executed_types (calls (Run evs c))
               = executed_types (calls c) @ replicate n kFull))"
  using executed_types_Update [of requested env c] Update_fields(1) [of requested env c]
    Run_only_full [of c evs]
  by simp

theorem C9_only_full_policy_witness:
  "executed_types (calls (fst (Update kIncremental (update_at 100 True)
       (Construct (example_config\<lparr>allowed_update_types := kOnlyFull\<rparr>) True)))) = [kFull]
   \<and> kIncremental \<notin> set (executed_types (calls (Run
       [UpdateEvent kIncremental (update_at 100 True),
        StartEvent {} no_dump_on_disk 0 (update_at 200 True),
        TickEvent 10 (update_at 300 False),
        UpdateEvent kIncremental (update_at 400 False)]
       (Construct (example_config\<lparr>allowed_update_types := kOnlyFull\<rparr>) True))))"
proof -
  define c where "c = Construct (example_config\<lparr>allowed_update_types := kOnlyFull\<rparr>) True"
  define evs where "evs =
       [UpdateEvent kIncremental (update_at 100 True),
        StartEvent {} no_dump_on_disk 0 (update_at 200 True),
        TickEvent 10 (update_at 300 False),
        UpdateEvent kIncremental (update_at 400 False)]"
  have p: "allowed_update_types (config c) = kOnlyFull" by (simp add: c_def Construct_def)
  have k: "list_all (KeepsPolicy kOnlyFull) evs" by (simp add: evs_def)
  have e: "executed_types (calls c) = []" by (simp add: c_def Construct_def)
  have "executed_types (calls (fst (Update kIncremental (update_at 100 True) c))) = [kFull]
      \<and> (\<exists>n. executed_types (calls (Run evs c)) = replicate n kFull)"
    using C9_only_full_policy [of kIncremental "update_at 100 True" c evs] p k e by simp
  then have "executed_types (calls (fst (Update kIncremental (update_at 100 True) c))) = [kFull]
      \<and> kIncremental \<notin> set (executed_types (calls (Run evs c)))"
    by auto
  then show ?thesis unfolding c_def evs_def .
qed

text \<open>
  C10 (amended). \<^verbatim>\<open>DumpSyncDebug\<close> forces a dump with type \<open>kForced\<close>, which
  bypasses only the \<open>min_dump_interval\<close> check: if dumps are disabled, or
  \<open>last_update\<close> is the zero instant, or a previous dump task is still live, it
  schedules no dump operation and throws nothing. When no dump task is live it then
  returns without blocking and leaves \<open>last_dumped_update\<close> and the update data
  unchanged. When a previous dump task is still live it waits for that task: on return
  the task has finished, and \<open>last_dumped_update\<close> is the \<open>new_update_time\<close> of that
  task if the task succeeded, and unchanged otherwise.
\<close>

theorem C10_forced_dump_skipped:
  assumes "\<not> dumps_enabled (config c) \<or> last_update (update_data c) = 0
           \<or> (IsValid (dump_task (update_data c)) \<and> \<not> IsFinished (dump_task (update_data c)))"
  shows "snd (DumpSyncDebug env c) = None
     \<and> spawned (calls (fst (DumpSyncDebug env c))) = spawned (calls c)
     \<and> (if IsValid (dump_task (update_data c)) \<and> \<not> IsFinished (dump_task (update_data c))
        then IsFinished (dump_task (update_data (fst (DumpSyncDebug env c))))
             \<and> (\<exists>rest. calls (fst (DumpSyncDebug env c))
                         = calls c @ [DumpEngine kForced, WaitDumpTask True] @ rest)
             \<and> (\<forall>op old new. dump_task (update_data c) = Running op old new \<longrightarrow>
                   last_dumped_update (fst (DumpSyncDebug env c)) =
                     (if snd (DumpBody op old new env c) = Inr True then new
                      else last_dumped_update c))
        else update_data (fst (DumpSyncDebug env c)) = update_data c
             \<and> last_dumped_update (fst (DumpSyncDebug env c)) = last_dumped_update c
             \<and> calls (fst (DumpSyncDebug env c)) =
                 calls c @ DumpEngine kForced #
                   (if IsValid (dump_task (update_data c)) then [WaitDumpTask False] else []))"
proof -
  have skip: "\<not> ShouldDump kForced (update_data c) (config c) c"
    using assms by (auto simp add: ShouldDump_def)
  note eq = DumpSyncDebug_skipped [OF skip, of env]
  show ?thesis
  proof (cases "dump_task (update_data c)")
    case Invalid
    then show ?thesis by (simp add: eq)
  next
    case (Finished r)
    then show ?thesis by (simp add: eq RunDumpTask_not_running)
  next
    case (Running op old new)
    define c1 where "c1 = Log (WaitDumpTask True) (Log (DumpEngine kForced) c)"
    have t1: "dump_task (update_data c1) = Running op old new"
      by (simp add: c1_def Running)
    have r: "fst (DumpSyncDebug env c) = RunDumpTask env c1"
      by (simp add: eq Running c1_def)
    have calls: "\<exists>rest. calls (RunDumpTask env c1)
                   = calls c @ [DumpEngine kForced, WaitDumpTask True] @ rest"
      using RunDumpTask_calls [of env c1] by (simp add: c1_def)
    show ?thesis
      using calls RunDumpTask_finishes [OF t1, of env] RunDumpTask_last_dumped_update [OF t1, of env]
        RunDumpTask_spawned [of env c1]
      by (simp add: r eq Running) (simp add: c1_def DumpBody_fields)
  qed
qed

theorem C10_forced_dump_skipped_witness:
  "snd (DumpSyncDebug dump_succeeds (Construct example_config True)) = None
   \<and> spawned (calls (fst (DumpSyncDebug dump_succeeds (Construct example_config True)))) = []
   \<and> last_dumped_update (fst (DumpSyncDebug dump_succeeds (Construct example_config True))) = 0
   \<and> calls (fst (DumpSyncDebug dump_succeeds (Construct example_config True)))
        = [DumpEngine kForced]"
proof -
  have h: "\<not> dumps_enabled (config (Construct example_config True))
           \<or> last_update (update_data (Construct example_config True)) = 0
           \<or> (IsValid (dump_task (update_data (Construct example_config True)))
              \<and> \<not> IsFinished (dump_task (update_data (Construct example_config True))))"
    by (simp add: Construct_def)
  show ?thesis
    using C10_forced_dump_skipped [OF h, of dump_succeeds]
    by (simp add: Construct_def)
qed

text \<open>
  The claim as it was stated fails when a previous dump task is still live:
  \<^verbatim>\<open>DumpSyncDebug\<close> schedules nothing, but \<^verbatim>\<open>update->dump_task.IsValid()\<close> holds
  and it waits for that task, which sets \<open>last_dumped_update\<close> when it succeeds.
\<close>

theorem C10_forced_dump_skipped_counterexample:
  "started_cache = fst (StartPeriodicUpdates {} no_dump_on_disk 0 (update_at 100 True)
       (Construct example_config True))
   \<and> IsValid (dump_task (update_data started_cache))
   \<and> \<not> IsFinished (dump_task (update_data started_cache))
   \<and> WaitDumpTask True \<in> set (calls (fst (DumpSyncDebug dump_succeeds started_cache)))
   \<and> last_dumped_update started_cache = 0
   \<and> last_dumped_update (fst (DumpSyncDebug dump_succeeds started_cache)) = 100"
  by (simp add: first_start) (simp add: started_cache_def operation_defs example_defs)

end
